theory Spec2Isabelle
  imports Main "HOL-Library.Sublist" "HOL-Library.Monad_Syntax"
begin

section \<open>Python strings\<close>

text \<open>
  A Python \<open>str\<close> is a sequence of Unicode code points; \<open>len\<close> counts code points and
  the Korean keywords of the configuration are compared code point by code point. A string
  is therefore a list of code points. \<open>lit\<close> writes an ASCII literal.
\<close>

type_synonym ustr = "nat list"

definition lit :: "string \<Rightarrow> ustr" where
  "lit s = map of_char s"

text \<open>\<open>sub in s\<close>: \<open>sub\<close> occurs in \<open>s\<close> as a contiguous run.\<close>

fun contains :: "ustr \<Rightarrow> ustr \<Rightarrow> bool" where
  "contains sub [] = (sub = [])"
| "contains sub (c # cs) = (prefix sub (c # cs) \<or> contains sub cs)"

text \<open>\<open>s.startswith(p)\<close>.\<close>

definition startswith :: "ustr \<Rightarrow> ustr \<Rightarrow> bool" where
  "startswith s p = prefix p s"

text \<open>\<open>str(n)\<close> for a non-negative integer, as the f-string of the board id formats it.\<close>

function str_nat :: "nat \<Rightarrow> ustr" where
  "str_nat n = (if n < 10 then [48 + n] else str_nat (n div 10) @ [48 + n mod 10])"
  by pat_completeness auto
termination
  by (relation "measure id") auto

declare str_nat.simps [simp del]

section \<open>Library functions and the parsed document\<close>

text \<open>
  The functions of the Python standard library that the crawler calls and that are not
  part of the repository are parameters of the model: \<open>str.lower\<close>,
  \<open>urllib.parse.urljoin\<close>, \<open>urlparse(...).netloc\<close>, and the search of the compiled
  pattern \<open>re.compile(r"(sitemap in Korean)|Sitemap", re.I)\<close>. Every theorem below holds
  for all of them.
\<close>

record stdlib =
  str_lower :: "ustr \<Rightarrow> ustr"
  urljoin :: "ustr \<Rightarrow> ustr \<Rightarrow> ustr"
  netloc :: "ustr \<Rightarrow> ustr"
  sitemap_search :: "ustr \<Rightarrow> bool"

text \<open>
  What the code reads of a BeautifulSoup document. An anchor is an \<open>a\<close> element:
  \<open>a_string\<close> is \<open>tag.string\<close> (absent when the element has not exactly one text child),
  \<open>a_text\<close> is \<open>tag.get_text(strip=True)\<close>, \<open>a_href\<close> is the \<open>href\<close> attribute when the
  element has one. A header is an \<open>h1\<close> element of the \<open>main\<close> region: its
  \<open>get_text(strip=True)\<close> and, for each \<open>div\<close>, \<open>p\<close> or \<open>span\<close> sibling that follows its
  parent, the anchors inside that sibling in document order. A document gives its anchors
  in document order, its serialisation \<open>str(soup)\<close>, and the headers of its \<open>main\<close>
  element when it has one.
\<close>

record anchor =
  a_string :: "ustr option"
  a_text :: ustr
  a_href :: "ustr option"

record header =
  h_text :: ustr
  h_siblings :: "anchor list list"

record soup =
  anchors :: "anchor list"
  markup :: ustr
  main_h1 :: "header list option"

section \<open>utils/selectors.py\<close>

record selectors =
  sel_row :: ustr
  sel_title :: ustr
  sel_date :: ustr
  sel_attr :: ustr

text \<open>The two dictionaries that \<open>detect_cms_selectors\<close> returns.\<close>

definition yonsei_cms :: selectors where
  "yonsei_cms =
     \<lparr>sel_row = lit ''tr:has(a.c-board-title)'',
      sel_title = lit ''a.c-board-title'',
      sel_date = lit ''td:nth-last-child(1)'',
      sel_attr = lit ''href''\<rparr>"

definition xe_board :: selectors where
  "xe_board =
     \<lparr>sel_row = lit ''li.xe-list-board-list--item:not(.xe-list-board-list--header)'',
      sel_title = lit ''a.xe-list-board-list__title-link'',
      sel_date = lit ''.xe-list-board-list__created_at'',
      sel_attr = lit ''href''\<rparr>"

definition detect_cms_selectors :: "stdlib \<Rightarrow> soup \<Rightarrow> ustr \<Rightarrow> selectors option" where
  "detect_cms_selectors L sp url =
     (let html_str = str_lower L (markup sp) in
      if contains (lit ''.do'') url \<or> contains (lit ''c-board-title'') html_str
      then Some yonsei_cms
      else if contains (lit ''xe-list-board'') html_str \<or> contains (lit ''xe_board'') html_str
      then Some xe_board
      else None)"

section \<open>config.py\<close>

record meta =
  m_id :: ustr
  m_name :: ustr

text \<open>
  \<open>KEYWORD_MAP\<close>, in the insertion order that \<open>.items()\<close> iterates. The Korean keys and
  names are given by their code points.
\<close>

definition KEYWORD_MAP :: "(ustr \<times> meta) list" where
  "KEYWORD_MAP =
     [([54617, 48512, 44277, 51648],
         \<lparr>m_id = lit ''academic'', m_name = [54617, 49324, 44277, 51648]\<rparr>),
      ([45824, 54617, 50896, 44277, 51648],
         \<lparr>m_id = lit ''grad_notice'', m_name = [45824, 54617, 50896, 44277, 51648]\<rparr>),
      ([51109, 54617],
         \<lparr>m_id = lit ''scholarship'', m_name = [51109, 54617, 44277, 51648]\<rparr>),
      ([52712, 50629],
         \<lparr>m_id = lit ''career'', m_name = [52712, 50629, 47, 51652, 47196]\<rparr>),
      ([44277, 51648, 49324, 54637],
         \<lparr>m_id = lit ''notice'', m_name = [51068, 48152, 44277, 51648]\<rparr>),
      ([54617, 49324, 44277, 51648],
         \<lparr>m_id = lit ''academic'', m_name = [54617, 49324, 44277, 51648]\<rparr>)]"

section \<open>crawlers/boards.py\<close>

text \<open>
  The dataclass \<open>Board\<close>; its fields \<open>id\<close>, \<open>name\<close> and \<open>url\<close> carry the prefix \<open>b_\<close>.
  \<open>mk_board i n url s\<close> is \<open>Board(id=i, name=n, url=url, **s)\<close>.
\<close>

record Board =
  b_id :: ustr
  b_name :: ustr
  b_url :: ustr
  row_selector :: ustr
  title_selector :: ustr
  date_selector :: ustr
  attr_name :: ustr

definition mk_board :: "ustr \<Rightarrow> ustr \<Rightarrow> ustr \<Rightarrow> selectors \<Rightarrow> Board" where
  "mk_board i n url s =
     \<lparr>b_id = i, b_name = n, b_url = url,
      row_selector = sel_row s, title_selector = sel_title s,
      date_selector = sel_date s, attr_name = sel_attr s\<rparr>"

definition blacklist :: "ustr list" where
  "blacklist = [lit ''articleNo'', lit ''article_no'', lit ''mode=view'', lit ''seq'',
                lit ''view.do'', lit ''board_seq'']"

definition is_valid_board_link :: "ustr \<Rightarrow> ustr \<Rightarrow> bool" where
  "is_valid_board_link text href =
     (if list_ex (\<lambda>word. contains word href) blacklist then False
      else if length text > 20 then False
      else True)"

text \<open>
  The local variables \<open>boards\<close>, \<open>seen_urls\<close> and \<open>id_counts\<close> of
  \<open>_extract_boards_from_soup\<close>.
\<close>

record extraction =
  boards :: "Board list"
  seen_urls :: "ustr set"
  id_counts :: "ustr \<rightharpoonup> nat"

text \<open>\<open>a or b\<close> on optional dictionaries; the dictionaries of the detector are not empty.\<close>

definition or_else :: "'a option \<Rightarrow> 'a option \<Rightarrow> 'a option" where
  "or_else a b = (case a of Some x \<Rightarrow> Some x | None \<Rightarrow> b)"

text \<open>
  The inner loop \<open>for keyword, meta in KEYWORD_MAP.items()\<close> for one anchor: \<open>continue\<close>
  goes on with the remaining keywords, \<open>break\<close> returns.
\<close>

fun keyword_loop ::
  "stdlib \<Rightarrow> soup \<Rightarrow> selectors option \<Rightarrow> ustr \<Rightarrow> ustr \<Rightarrow> (ustr \<times> meta) list
     \<Rightarrow> extraction \<Rightarrow> extraction" where
  "keyword_loop L sp default_selectors text full_url [] st = st"
| "keyword_loop L sp default_selectors text full_url ((keyword, mt) # rest) st =
     (if \<not> contains keyword text
      then keyword_loop L sp default_selectors text full_url rest st
      else case or_else (detect_cms_selectors L sp full_url) default_selectors of
          None \<Rightarrow> keyword_loop L sp default_selectors text full_url rest st
        | Some sel \<Rightarrow>
            (let base_id = m_id mt;
                 n = (case id_counts st base_id of None \<Rightarrow> 0 | Some c \<Rightarrow> c) + 1;
                 final_id = (if n > 1 then base_id @ lit ''_'' @ str_nat n else base_id)
             in \<lparr>boards = boards st @
                    [mk_board final_id (if text \<noteq> [] then text else m_name mt) full_url sel],
                 seen_urls = insert full_url (seen_urls st),
                 id_counts = (id_counts st)(base_id \<mapsto> n)\<rparr>))"

text \<open>
  The outer loop \<open>for link in soup.find_all("a", href=True)\<close>: anchors without the
  attribute are not enumerated.
\<close>

fun link_loop ::
  "stdlib \<Rightarrow> soup \<Rightarrow> ustr \<Rightarrow> selectors option \<Rightarrow> anchor list \<Rightarrow> extraction \<Rightarrow> extraction" where
  "link_loop L sp base_url default_selectors [] st = st"
| "link_loop L sp base_url default_selectors (link # links) st =
     (case a_href link of
        None \<Rightarrow> link_loop L sp base_url default_selectors links st
      | Some href \<Rightarrow>
          (let text = a_text link in
           if \<not> is_valid_board_link text href
           then link_loop L sp base_url default_selectors links st
           else
             (let full_url = urljoin L base_url href in
              if full_url \<in> seen_urls st \<or> contains (lit ''javascript'') href
                   \<or> contains (lit ''#'') href
              then link_loop L sp base_url default_selectors links st
              else if str_lower L (netloc L full_url) \<noteq> str_lower L (netloc L base_url)
              then link_loop L sp base_url default_selectors links st
              else link_loop L sp base_url default_selectors links
                     (keyword_loop L sp default_selectors text full_url KEYWORD_MAP st))))"

definition extract_boards_from_soup ::
  "stdlib \<Rightarrow> soup \<Rightarrow> ustr \<Rightarrow> selectors option \<Rightarrow> Board list" where
  "extract_boards_from_soup L sp base_url default_selectors =
     boards (link_loop L sp base_url default_selectors (anchors sp)
               \<lparr>boards = [], seen_urls = {}, id_counts = Map.empty\<rparr>)"


text \<open>
  The dataclasses \<open>ManualReviewItem\<close> and \<open>BoardDiscoveryResult\<close>, and the dictionary
  \<open>dept_info\<close> with its keys \<open>campus\<close> and \<open>name\<close>. Fields whose names occur in several
  classes carry a prefix.
\<close>

record ManualReviewItem =
  mr_campus :: ustr
  mr_name :: ustr
  mr_url :: ustr
  reason :: ustr

record BoardDiscoveryResult =
  r_boards :: "Board list"
  manual_review :: "ManualReviewItem option"

record dept_info =
  di_campus :: ustr
  di_name :: ustr

text \<open>
  \<open>get_soup(url, timeout)\<close> reads the network; it is a parameter \<open>get_soup\<close> giving the
  parsed document or \<open>None\<close>. To state what a call does not do, \<open>discover_boards\<close> also
  returns the trace of its effects in order: each call of \<open>get_soup\<close> with its url and
  timeout, and each run of \<open>_extract_boards_from_soup\<close> with the document it scans.
\<close>

datatype document = Homepage | Sitemap

datatype event = Fetched ustr nat | Scanned document

definition find_sitemap ::
  "stdlib \<Rightarrow> (ustr \<Rightarrow> nat \<Rightarrow> soup option) \<Rightarrow> soup \<Rightarrow> ustr \<Rightarrow> soup option \<times> event list" where
  "find_sitemap L get_soup sp base_url =
     (case find (\<lambda>a. case a_string a of None \<Rightarrow> False | Some s \<Rightarrow> sitemap_search L s)
             (anchors sp) of
        None \<Rightarrow> (None, [])
      | Some sitemap_link \<Rightarrow>
          (case a_href sitemap_link of
             None \<Rightarrow> (None, [])
           | Some href \<Rightarrow>
               if href = [] then (None, [])
               else (let sitemap_url = urljoin L base_url href
                     in (get_soup sitemap_url 5, [Fetched sitemap_url 5]))))"

definition discover_boards ::
  "stdlib \<Rightarrow> (ustr \<Rightarrow> nat \<Rightarrow> soup option) \<Rightarrow> dept_info \<Rightarrow> ustr
     \<Rightarrow> BoardDiscoveryResult \<times> event list" where
  "discover_boards L get_soup info dept_url =
     (if dept_url = lit ''NOT_FOUND'' \<or> \<not> startswith dept_url (lit ''http'')
      then (\<lparr>r_boards = [],
             manual_review = Some \<lparr>mr_campus = di_campus info, mr_name = di_name info,
                                   mr_url = dept_url,
                                   reason = lit ''Homepage URL is invalid''\<rparr>\<rparr>, [])
      else case get_soup dept_url 7 of
          None \<Rightarrow>
            (\<lparr>r_boards = [],
              manual_review = Some \<lparr>mr_campus = di_campus info, mr_name = di_name info,
                                    mr_url = dept_url,
                                    reason = lit ''Failed to fetch homepage''\<rparr>\<rparr>,
             [Fetched dept_url 7])
        | Some sp \<Rightarrow>
            (let default_selectors = detect_cms_selectors L sp dept_url;
                 (sitemap_soup, fetched) = find_sitemap L get_soup sp dept_url
             in case sitemap_soup of
                  None \<Rightarrow>
                    (\<lparr>r_boards = extract_boards_from_soup L sp dept_url default_selectors,
                      manual_review = None\<rparr>,
                     Fetched dept_url 7 # fetched @ [Scanned Homepage])
                | Some sm \<Rightarrow>
                    (let bs = extract_boards_from_soup L sm dept_url default_selectors in
                     if bs \<noteq> []
                     then (\<lparr>r_boards = bs, manual_review = None\<rparr>,
                           Fetched dept_url 7 # fetched @ [Scanned Sitemap])
                     else (\<lparr>r_boards =
                               extract_boards_from_soup L sp dept_url default_selectors,
                             manual_review = None\<rparr>,
                           Fetched dept_url 7 # fetched @ [Scanned Sitemap, Scanned Homepage]))))"

section \<open>crawlers/departments.py\<close>

text \<open>
  The values that \<open>to_dict\<close> builds and \<open>json.dump\<close> writes: strings, lists, and
  dictionaries with their keys in insertion order.
\<close>

datatype json = JStr ustr | JList "json list" | JDict "(ustr \<times> json) list"

text \<open>
  The dataclasses \<open>Department\<close>, \<open>College\<close> and \<open>Campus\<close>. The field \<open>boards\<close> of a
  \<open>Department\<close> is an untyped list that \<open>to_dict\<close> emits as it is; \<open>crawl_campus\<close> leaves
  it empty, and \<open>main\<close> stores the serialised boards \<open>[b.to_dict() for b in ...]\<close> under
  that key. Its elements are therefore values of the output shape.
\<close>

record Department =
  d_id :: ustr
  d_name :: ustr
  d_url :: ustr
  d_boards :: "json list"

record College =
  c_name :: ustr
  departments :: "Department list"

record Campus =
  campus :: ustr
  colleges :: "College list"

definition Board_to_dict :: "Board \<Rightarrow> json" where
  "Board_to_dict b =
     JDict [(lit ''id'', JStr (b_id b)),
            (lit ''name'', JStr (b_name b)),
            (lit ''url'', JStr (b_url b)),
            (lit ''row_selector'', JStr (row_selector b)),
            (lit ''title_selector'', JStr (title_selector b)),
            (lit ''date_selector'', JStr (date_selector b)),
            (lit ''attr_name'', JStr (attr_name b))]"

definition Department_to_dict :: "Department \<Rightarrow> json" where
  "Department_to_dict d =
     JDict [(lit ''id'', JStr (d_id d)),
            (lit ''name'', JStr (d_name d)),
            (lit ''url'', JStr (d_url d)),
            (lit ''boards'', JList (d_boards d))]"

definition College_to_dict :: "College \<Rightarrow> json" where
  "College_to_dict c =
     JDict [(lit ''name'', JStr (c_name c)),
            (lit ''departments'', JList (map Department_to_dict (departments c)))]"

definition Campus_to_dict :: "Campus \<Rightarrow> json" where
  "Campus_to_dict c =
     JDict [(lit ''campus'', JStr (campus c)),
            (lit ''colleges'', JList (map College_to_dict (colleges c)))]"

text \<open>
  The first anchor of a sibling whose \<open>string\<close> contains the Korean word for homepage
  (code points 54856, 54168, 51060, 51648); its \<open>href\<close> is returned unless it is missing,
  empty or starts with \<open>#\<close>, and then the next sibling is tried.
\<close>

definition homepage_kw :: ustr where
  "homepage_kw = [54856, 54168, 51060, 51648]"

fun sibling_loop :: "anchor list list \<Rightarrow> ustr" where
  "sibling_loop [] = lit ''NOT_FOUND''"
| "sibling_loop (sibling # rest) =
     (case find (\<lambda>a. case a_string a of None \<Rightarrow> False
                                       | Some x \<Rightarrow> x \<noteq> [] \<and> contains homepage_kw x) sibling of
        None \<Rightarrow> sibling_loop rest
      | Some homepage_link \<Rightarrow>
          (case a_href homepage_link of
             None \<Rightarrow> sibling_loop rest
           | Some href \<Rightarrow>
               if href \<noteq> [] \<and> \<not> startswith href (lit ''#'') then href
               else sibling_loop rest))"

definition extract_department_url :: "header \<Rightarrow> ustr" where
  "extract_department_url h = sibling_loop (take 3 (h_siblings h))"

text \<open>
  \<open>re.match(r"https?://([^.]+)\.yonsei\.ac\.kr", url)\<close>: the pattern is anchored at the
  start, the scheme is \<open>http\<close> or \<open>https\<close>, the group is the longest run of characters
  other than the dot (46), it is not empty, and \<open>.yonsei.ac.kr\<close> follows it. The result is
  \<open>group(1)\<close>.
\<close>

definition subdomain_match :: "ustr \<Rightarrow> ustr option" where
  "subdomain_match url =
     (case (if prefix (lit ''https://'') url then Some (drop 8 url)
            else if prefix (lit ''http://'') url then Some (drop 7 url)
            else None) of
        None \<Rightarrow> None
      | Some r \<Rightarrow>
          (let g = takeWhile (\<lambda>c. c \<noteq> 46) r in
           if g \<noteq> [] \<and> prefix (lit ''.yonsei.ac.kr'') (dropWhile (\<lambda>c. c \<noteq> 46) r)
           then Some g else None))"

text \<open>\<open>s.replace(' ', '_')\<close>.\<close>

definition replace_space :: "ustr \<Rightarrow> ustr" where
  "replace_space s = map (\<lambda>c. if c = 32 then 95 else c) s"

definition generate_department_id :: "stdlib \<Rightarrow> ustr \<Rightarrow> ustr \<Rightarrow> ustr" where
  "generate_department_id L name url =
     (case (if url \<noteq> [] \<and> url \<noteq> lit ''NOT_FOUND'' then subdomain_match url else None) of
        Some g \<Rightarrow> lit ''yonsei_'' @ str_lower L g
      | None \<Rightarrow> lit ''yonsei_'' @ replace_space (str_lower L name))"

text \<open>
  \<open>re.sub(marker + ".*", "", text)\<close> for a marker without a line feed: from each
  occurrence of the marker the rest of the line is deleted (\<open>.\<close> does not match the line
  feed, 10). The flag says that the scan is inside a match.
\<close>

fun sub_to_eol :: "ustr \<Rightarrow> bool \<Rightarrow> ustr \<Rightarrow> ustr" where
  "sub_to_eol marker deleting [] = []"
| "sub_to_eol marker deleting (c # cs) =
     (if deleting
      then (if c = 10 then c # sub_to_eol marker False cs else sub_to_eol marker True cs)
      else if prefix marker (c # cs) then sub_to_eol marker True cs
      else c # sub_to_eol marker False cs)"

definition faculty_kw :: ustr where
  "faculty_kw = [44368, 49688, 51652]"

text \<open>\<open>str.strip()\<close>: the code points for which \<open>str.isspace\<close> holds are removed at both ends.\<close>

definition is_space :: "nat \<Rightarrow> bool" where
  "is_space c \<longleftrightarrow>
     c \<in> {9, 10, 11, 12, 13, 28, 29, 30, 31, 32, 133, 160, 5760, 8232, 8233, 8239, 8287, 12288}
     \<or> (8192 \<le> c \<and> c \<le> 8202)"

definition strip :: "ustr \<Rightarrow> ustr" where
  "strip s = rev (dropWhile is_space (rev (dropWhile is_space s)))"

text \<open>
  \<open>college_pattern.search(text)\<close> for the pattern \<open>([H]+DH)$\<close>, where \<open>[H]\<close> is the range
  of Hangul syllables 44032 to 55203 and \<open>DH\<close> are the two syllables 45824, 54617 (both in
  that range): the text, or the text without a final line feed, ends with a Hangul syllable
  followed by \<open>DH\<close>.
\<close>

definition hangul :: "nat \<Rightarrow> bool" where
  "hangul c \<longleftrightarrow> 44032 \<le> c \<and> c \<le> 55203"

definition ends_college :: "ustr \<Rightarrow> bool" where
  "ends_college s =
     (case rev s of
        k # d # x # _ \<Rightarrow> k = 54617 \<and> d = 45824 \<and> hangul x
      | _ \<Rightarrow> False)"

definition college_pattern_search :: "ustr \<Rightarrow> bool" where
  "college_pattern_search text \<longleftrightarrow>
     ends_college text \<or> (text \<noteq> [] \<and> last text = 10 \<and> ends_college (butlast text))"

text \<open>
  The loop of \<open>crawl_campus\<close> over the headers. \<open>campus.colleges\<close> is the list
  \<open>cs_colleges\<close>; \<open>current_college\<close> refers to an element of that list and is its index, so
  that appending a department to it changes the list.
\<close>

record crawl_state =
  cs_colleges :: "College list"
  current_college :: "nat option"

fun header_loop :: "stdlib \<Rightarrow> header list \<Rightarrow> crawl_state \<Rightarrow> crawl_state" where
  "header_loop L [] st = st"
| "header_loop L (h # hs) st =
     (let text = strip (sub_to_eol homepage_kw False (sub_to_eol faculty_kw False (h_text h))) in
      if text = [] then header_loop L hs st
      else if college_pattern_search text then
        (if (case current_college st of
               None \<Rightarrow> False
             | Some i \<Rightarrow> c_name (cs_colleges st ! i) = text)
         then header_loop L hs st
         else header_loop L hs
                \<lparr>cs_colleges = cs_colleges st @ [\<lparr>c_name = text, departments = []\<rparr>],
                 current_college = Some (length (cs_colleges st))\<rparr>)
      else
        (case current_college st of
           None \<Rightarrow> header_loop L hs st
         | Some i \<Rightarrow>
             if contains [45824, 54617] text then header_loop L hs st
             else if list_ex (\<lambda>d. d_name d = text) (departments (cs_colleges st ! i))
             then header_loop L hs st
             else
               (let dept_url = extract_department_url h;
                    dept_id = generate_department_id L text dept_url;
                    college = cs_colleges st ! i
                in header_loop L hs
                     (st\<lparr>cs_colleges := (cs_colleges st)
                            [i := college\<lparr>departments := departments college @
                                   [\<lparr>d_id = dept_id, d_name = text, d_url = dept_url,
                                     d_boards = []\<rparr>]\<rparr>]\<rparr>))))"

text \<open>\<open>get_soup(url)\<close> uses the default timeout \<open>REQUEST_TIMEOUT = 10\<close>.\<close>

definition crawl_campus ::
  "stdlib \<Rightarrow> (ustr \<Rightarrow> nat \<Rightarrow> soup option) \<Rightarrow> ustr \<Rightarrow> ustr \<Rightarrow> Campus option" where
  "crawl_campus L get_soup url campus_name =
     (case get_soup url 10 of
        None \<Rightarrow> None
      | Some sp \<Rightarrow>
          (case main_h1 sp of
             None \<Rightarrow> None
           | Some hs \<Rightarrow>
               Some \<lparr>campus = campus_name,
                     colleges = cs_colleges
                       (header_loop L hs \<lparr>cs_colleges = [], current_college = None\<rparr>)\<rparr>))"


section \<open>Auxiliary definitions\<close>

text \<open>
  An instance of the library parameters, for evaluating the model on examples. It agrees
  with Python on the strings of the examples: text in ASCII and Hangul, absolute URLs of
  the form \<open>scheme://authority/path\<close>, and hrefs that are such URLs or start with a
  single slash.
\<close>

definition ascii_lower :: "ustr \<Rightarrow> ustr" where
  "ascii_lower s = map (\<lambda>c. if 65 \<le> c \<and> c \<le> 90 then c + 32 else c) s"

definition simple_netloc :: "ustr \<Rightarrow> ustr" where
  "simple_netloc url =
     (case dropWhile (\<lambda>c. c \<noteq> 58) url of
        c # s1 # s2 # rest \<Rightarrow>
          if s1 = 47 \<and> s2 = 47 then takeWhile (\<lambda>x. x \<noteq> 47 \<and> x \<noteq> 63 \<and> x \<noteq> 35) rest else []
      | _ \<Rightarrow> [])"

definition simple_urljoin :: "ustr \<Rightarrow> ustr \<Rightarrow> ustr" where
  "simple_urljoin base href =
     (if simple_netloc href \<noteq> [] then href
      else if prefix (lit ''/'') href
      then takeWhile (\<lambda>c. c \<noteq> 58) base @ lit ''://'' @ simple_netloc base @ href
      else base @ href)"

definition simple_sitemap_search :: "ustr \<Rightarrow> bool" where
  "simple_sitemap_search s \<longleftrightarrow>
     contains [49324, 51060, 53944, 47605] s \<or> contains (lit ''sitemap'') (ascii_lower s)"

definition simple_lib :: stdlib where
  "simple_lib =
     \<lparr>str_lower = ascii_lower, urljoin = simple_urljoin, netloc = simple_netloc,
      sitemap_search = simple_sitemap_search\<rparr>"

text \<open>
  The path of a URL \<open>scheme://authority/path?query#fragment\<close>: what follows the authority,
  up to the query or the fragment.
\<close>

definition url_path :: "ustr \<Rightarrow> ustr" where
  "url_path url =
     (case dropWhile (\<lambda>c. c \<noteq> 58) url of
        c # s1 # s2 # rest \<Rightarrow>
          if s1 = 47 \<and> s2 = 47
          then takeWhile (\<lambda>x. x \<noteq> 63 \<and> x \<noteq> 35)
                 (dropWhile (\<lambda>x. x \<noteq> 47 \<and> x \<noteq> 63 \<and> x \<noteq> 35) rest)
          else takeWhile (\<lambda>x. x \<noteq> 63 \<and> x \<noteq> 35) (s1 # s2 # rest)
      | _ \<Rightarrow> takeWhile (\<lambda>x. x \<noteq> 63 \<and> x \<noteq> 35) url)"

text \<open>
  A script pseudo-link: an href whose scheme, the part before the first colon, is
  \<open>javascript\<close> in any mix of upper and lower case, as URL schemes are compared.
\<close>

definition script_pseudo_link :: "ustr \<Rightarrow> bool" where
  "script_pseudo_link href \<longleftrightarrow>
     dropWhile (\<lambda>c. c \<noteq> 58) href \<noteq> [] \<and>
     ascii_lower (takeWhile (\<lambda>c. c \<noteq> 58) href) = lit ''javascript''"

text \<open>
  The pattern \<open>scheme://{subdomain}.yonsei.ac.kr/...\<close> as the specification words it: a
  scheme, \<open>://\<close>, a host that ends with \<open>.yonsei.ac.kr\<close>, and a slash after the host.
  The result is the subdomain, the host without that ending.
\<close>

definition claimed_pattern :: "ustr \<Rightarrow> ustr option" where
  "claimed_pattern url =
     (case dropWhile (\<lambda>c. c \<noteq> 58) url of
        c # s1 # s2 # rest \<Rightarrow>
          (let scheme = takeWhile (\<lambda>c. c \<noteq> 58) url;
               host = takeWhile (\<lambda>x. x \<noteq> 47) rest;
               after = dropWhile (\<lambda>x. x \<noteq> 47) rest
           in if scheme \<noteq> [] \<and> s1 = 47 \<and> s2 = 47 \<and> after \<noteq> []
                 \<and> suffix (lit ''.yonsei.ac.kr'') host \<and> length host > 13
              then Some (take (length host - 13) host) else None)
      | _ \<Rightarrow> None)"


text \<open>
  The category of a text is the entry of the first keyword of the table that occurs in
  it, as the keyword loop finds it; the category of a board is that of its name.
\<close>

fun classify :: "ustr \<Rightarrow> (ustr \<times> meta) list \<Rightarrow> meta option" where
  "classify text [] = None"
| "classify text ((keyword, mt) # rest) =
     (if contains keyword text then Some mt else classify text rest)"

definition category :: "Board \<Rightarrow> ustr option" where
  "category b = map_option m_id (classify (b_name b) KEYWORD_MAP)"

text \<open>The state after the body of the keyword loop has appended a board.\<close>

definition add_board :: "extraction \<Rightarrow> meta \<Rightarrow> ustr \<Rightarrow> ustr \<Rightarrow> selectors \<Rightarrow> extraction" where
  "add_board st mt text full_url sel =
     (let base_id = m_id mt;
          n = (case id_counts st base_id of None \<Rightarrow> 0 | Some c \<Rightarrow> c) + 1;
          final_id = (if n > 1 then base_id @ lit ''_'' @ str_nat n else base_id)
      in \<lparr>boards = boards st @
             [mk_board final_id (if text \<noteq> [] then text else m_name mt) full_url sel],
          seen_urls = insert full_url (seen_urls st),
          id_counts = (id_counts st)(base_id \<mapsto> n)\<rparr>)"

definition count_cat :: "ustr \<Rightarrow> Board list \<Rightarrow> nat" where
  "count_cat X bs = length (filter (\<lambda>b. category b = Some X) bs)"

text \<open>
  The invariant of the extraction loops for the ids: each counter is the number of boards
  of its category so far, and each board carries the number it had when it was appended.
\<close>

definition ids_ok :: "extraction \<Rightarrow> bool" where
  "ids_ok st \<longleftrightarrow>
     (\<forall>X. (case id_counts st X of None \<Rightarrow> 0 | Some c \<Rightarrow> c) = count_cat X (boards st)) \<and>
     (\<forall>i < length (boards st). \<exists>X. category (boards st ! i) = Some X \<and>
        b_id (boards st ! i) =
          (if count_cat X (take (Suc i) (boards st)) > 1
           then X @ lit ''_'' @ str_nat (count_cat X (take (Suc i) (boards st))) else X))"

text \<open>
  A board comes from an anchor when its url is the anchor's href resolved against the base
  url, and the href contains neither \<open>javascript\<close> nor \<open>#\<close>.
\<close>

definition from_anchor :: "stdlib \<Rightarrow> ustr \<Rightarrow> anchor \<Rightarrow> Board \<Rightarrow> bool" where
  "from_anchor L base_url a b =
     (case a_href a of
        None \<Rightarrow> False
      | Some href \<Rightarrow>
          b_url b = urljoin L base_url href \<and> \<not> contains (lit ''javascript'') href
            \<and> \<not> contains (lit ''#'') href)"



text \<open>\<open>d[k] = v\<close> on a dictionary in insertion order.\<close>

definition dict_set :: "ustr \<Rightarrow> json \<Rightarrow> (ustr \<times> json) list \<Rightarrow> (ustr \<times> json) list" where
  "dict_set k v kv =
     (if k \<in> fst ` set kv then map (\<lambda>(k', v'). if k' = k then (k', v) else (k', v')) kv
      else kv @ [(k, v)])"

text \<open>
  The statement \<open>dept["boards"] = [b.to_dict() for b in result.boards]\<close> of \<open>main\<close>, on
  the dictionary of a department.
\<close>

definition attach_boards :: "json \<Rightarrow> Board list \<Rightarrow> json" where
  "attach_boards dept bs =
     (case dept of
        JDict kv \<Rightarrow> JDict (dict_set (lit ''boards'') (JList (map Board_to_dict bs)) kv)
      | _ \<Rightarrow> dept)"

text \<open>
  Modelled from the spec: the re-parsing of the output JSON shape, which the repository
  does not contain (it only writes the files). Following the object keys of section 6 of
  the specification, an object is read by its keys \<open>campus\<close>, \<open>colleges\<close>, \<open>name\<close>,
  \<open>departments\<close>, \<open>id\<close>, \<open>url\<close>, \<open>boards\<close> and the four selector keys; a value of another
  shape is rejected.
\<close>

definition get_str :: "(ustr \<times> json) list \<Rightarrow> ustr \<Rightarrow> ustr option" where
  "get_str kv k = (case map_of kv k of Some (JStr s) \<Rightarrow> Some s | _ \<Rightarrow> None)"

definition get_list :: "(ustr \<times> json) list \<Rightarrow> ustr \<Rightarrow> json list option" where
  "get_list kv k = (case map_of kv k of Some (JList xs) \<Rightarrow> Some xs | _ \<Rightarrow> None)"

definition Board_from_dict :: "json \<Rightarrow> Board option" where
  "Board_from_dict j =
     (case j of
        JDict kv \<Rightarrow>
          do {
            i \<leftarrow> get_str kv (lit ''id'');
            n \<leftarrow> get_str kv (lit ''name'');
            u \<leftarrow> get_str kv (lit ''url'');
            r \<leftarrow> get_str kv (lit ''row_selector'');
            t \<leftarrow> get_str kv (lit ''title_selector'');
            d \<leftarrow> get_str kv (lit ''date_selector'');
            a \<leftarrow> get_str kv (lit ''attr_name'');
            Some \<lparr>b_id = i, b_name = n, b_url = u, row_selector = r, title_selector = t,
                  date_selector = d, attr_name = a\<rparr>
          }
      | _ \<Rightarrow> None)"

definition Department_from_dict :: "json \<Rightarrow> Department option" where
  "Department_from_dict j =
     (case j of
        JDict kv \<Rightarrow>
          do {
            i \<leftarrow> get_str kv (lit ''id'');
            n \<leftarrow> get_str kv (lit ''name'');
            u \<leftarrow> get_str kv (lit ''url'');
            bs \<leftarrow> get_list kv (lit ''boards'');
            Some \<lparr>d_id = i, d_name = n, d_url = u, d_boards = bs\<rparr>
          }
      | _ \<Rightarrow> None)"

definition College_from_dict :: "json \<Rightarrow> College option" where
  "College_from_dict j =
     (case j of
        JDict kv \<Rightarrow>
          do {
            n \<leftarrow> get_str kv (lit ''name'');
            ds \<leftarrow> get_list kv (lit ''departments'');
            ds' \<leftarrow> those (map Department_from_dict ds);
            Some \<lparr>c_name = n, departments = ds'\<rparr>
          }
      | _ \<Rightarrow> None)"

definition Campus_from_dict :: "json \<Rightarrow> Campus option" where
  "Campus_from_dict j =
     (case j of
        JDict kv \<Rightarrow>
          do {
            n \<leftarrow> get_str kv (lit ''campus'');
            cs \<leftarrow> get_list kv (lit ''colleges'');
            cs' \<leftarrow> those (map College_from_dict cs);
            Some \<lparr>campus = n, colleges = cs'\<rparr>
          }
      | _ \<Rightarrow> None)"

section \<open>Example documents\<close>

text \<open>
  A department homepage at \<open>https://cs.yonsei.ac.kr/\<close>. Its anchors, in order: two notice
  boards of the category \<open>academic\<close>, a script link, a link to another host, a second
  link to the first board, and a link to the sitemap. The sitemap page lists one
  scholarship board.
\<close>

definition cs_url :: ustr where
  "cs_url = lit ''https://cs.yonsei.ac.kr/''"

definition cs_home :: soup where
  "cs_home =
     \<lparr>anchors =
        [\<lparr>a_string = Some [54617, 49324, 44277, 51648], a_text = [54617, 49324, 44277, 51648],
          a_href = Some (lit ''/board/list.do?id=1'')\<rparr>,
         \<lparr>a_string = Some [54617, 48512, 44277, 51648], a_text = [54617, 48512, 44277, 51648],
          a_href = Some (lit ''/board/ug.do'')\<rparr>,
         \<lparr>a_string = Some [51109, 54617], a_text = [51109, 54617],
          a_href = Some (lit ''javascript:void(0)'')\<rparr>,
         \<lparr>a_string = Some [44277, 51648, 49324, 54637], a_text = [44277, 51648, 49324, 54637],
          a_href = Some (lit ''https://www.example.com/notice.do'')\<rparr>,
         \<lparr>a_string = Some [54617, 49324, 44277, 51648], a_text = [54617, 49324, 44277, 51648],
          a_href = Some (lit ''/board/list.do?id=1'')\<rparr>,
         \<lparr>a_string = Some (lit ''Sitemap''), a_text = lit ''Sitemap'',
          a_href = Some (lit ''/sitemap'')\<rparr>],
      markup = [], main_h1 = None\<rparr>"

definition cs_sitemap :: soup where
  "cs_sitemap =
     \<lparr>anchors =
        [\<lparr>a_string = Some [51109, 54617], a_text = [51109, 54617],
          a_href = Some (lit ''/s.do'')\<rparr>],
      markup = [], main_h1 = None\<rparr>"

text \<open>A network on which the homepage and its sitemap can be fetched.\<close>

definition cs_web :: "ustr \<Rightarrow> nat \<Rightarrow> soup option" where
  "cs_web url timeout =
     (if url = cs_url then Some cs_home
      else if url = lit ''https://cs.yonsei.ac.kr/sitemap'' then Some cs_sitemap
      else None)"


definition no_web :: "ustr \<Rightarrow> nat \<Rightarrow> soup option" where
  "no_web url timeout = None"

text \<open>A homepage without boards and without a sitemap link.\<close>

definition empty_home :: soup where
  "empty_home = \<lparr>anchors = [], markup = [], main_h1 = None\<rparr>"

definition empty_web :: "ustr \<Rightarrow> nat \<Rightarrow> soup option" where
  "empty_web url timeout = Some empty_home"



text \<open>
  A page with one anchor, named by the keyword for general notices (code points 44277,
  51648, 49324, 54637), whose href has the scheme \<open>JavaScript\<close> in mixed case and the host
  of the department.
\<close>

definition js_home :: soup where
  "js_home =
     \<lparr>anchors =
        [\<lparr>a_string = Some [44277, 51648, 49324, 54637], a_text = [44277, 51648, 49324, 54637],
          a_href = Some (lit ''JavaScript://cs.yonsei.ac.kr/%0Aalert(1)//list.do'')\<rparr>],
      markup = [], main_h1 = None\<rparr>"

definition cs_info :: dept_info where
  "cs_info = \<lparr>di_campus = lit ''Sinchon'', di_name = lit ''CS''\<rparr>"

text \<open>
  A campus page whose \<open>main\<close> region has three college headers; the first and the third
  carry the same name (code points of the Korean names of the colleges of engineering and
  of liberal arts).
\<close>

definition three_colleges :: soup where
  "three_colleges =
     \<lparr>anchors = [], markup = [],
      main_h1 = Some [\<lparr>h_text = [44277, 44284, 45824, 54617], h_siblings = []\<rparr>,
                      \<lparr>h_text = [47928, 44284, 45824, 54617], h_siblings = []\<rparr>,
                      \<lparr>h_text = [44277, 44284, 45824, 54617], h_siblings = []\<rparr>]\<rparr>"

definition campus_web :: "ustr \<Rightarrow> nat \<Rightarrow> soup option" where
  "campus_web url timeout = Some three_colleges"


text \<open>
  A campus page with the headers: the college of engineering, the same header again, a
  department (whose text ends with the faculty marker, and whose parent is followed by a
  sibling with a homepage link), the college header a third time, and the college of
  liberal arts.
\<close>

definition repeated_colleges :: soup where
  "repeated_colleges =
     \<lparr>anchors = [], markup = [],
      main_h1 = Some
        [\<lparr>h_text = [44277, 44284, 45824, 54617], h_siblings = []\<rparr>,
         \<lparr>h_text = [44277, 44284, 45824, 54617], h_siblings = []\<rparr>,
         \<lparr>h_text = [52980, 54504, 53552, 44284, 54617, 44284, 32, 44368, 49688, 51652],
          h_siblings =
            [[\<lparr>a_string = Some [54856, 54168, 51060, 51648],
               a_text = [54856, 54168, 51060, 51648],
               a_href = Some (lit ''https://cs.yonsei.ac.kr/'')\<rparr>]]\<rparr>,
         \<lparr>h_text = [44277, 44284, 45824, 54617], h_siblings = []\<rparr>,
         \<lparr>h_text = [47928, 44284, 45824, 54617], h_siblings = []\<rparr>]\<rparr>"

definition repeated_web :: "ustr \<Rightarrow> nat \<Rightarrow> soup option" where
  "repeated_web url timeout = Some repeated_colleges"

text \<open>The state after the body of the header loop has run on one header.\<close>

definition header_step :: "stdlib \<Rightarrow> header \<Rightarrow> crawl_state \<Rightarrow> crawl_state" where
  "header_step L h st =
     (let text = strip (sub_to_eol homepage_kw False (sub_to_eol faculty_kw False (h_text h))) in
      if text = [] then st
      else if college_pattern_search text then
        (if (case current_college st of
               None \<Rightarrow> False
             | Some i \<Rightarrow> c_name (cs_colleges st ! i) = text)
         then st
         else \<lparr>cs_colleges = cs_colleges st @ [\<lparr>c_name = text, departments = []\<rparr>],
               current_college = Some (length (cs_colleges st))\<rparr>)
      else
        (case current_college st of
           None \<Rightarrow> st
         | Some i \<Rightarrow>
             if contains [45824, 54617] text then st
             else if list_ex (\<lambda>d. d_name d = text) (departments (cs_colleges st ! i))
             then st
             else
               (let dept_url = extract_department_url h;
                    dept_id = generate_department_id L text dept_url;
                    college = cs_colleges st ! i
                in st\<lparr>cs_colleges := (cs_colleges st)
                         [i := college\<lparr>departments := departments college @
                                [\<lparr>d_id = dept_id, d_name = text, d_url = dept_url,
                                  d_boards = []\<rparr>]\<rparr>]\<rparr>)))"

text \<open>
  The invariant of the header loop: \<open>current_college\<close> is the last college of the list,
  and no two neighbours in the list have the same name.
\<close>

definition crawl_inv :: "crawl_state \<Rightarrow> bool" where
  "crawl_inv st \<longleftrightarrow>
     current_college st
       = (if cs_colleges st = [] then None else Some (length (cs_colleges st) - 1)) \<and>
     distinct_adj (map c_name (cs_colleges st))"

section \<open>The keyword loop\<close>

lemma keyword_loop_eq:
  "keyword_loop L sp d text full_url kws st =
     (case or_else (detect_cms_selectors L sp full_url) d of
        None \<Rightarrow> st
      | Some sel \<Rightarrow>
          (case classify text kws of
             None \<Rightarrow> st
           | Some mt \<Rightarrow> add_board st mt text full_url sel))"
  by (induction kws) (auto simp: add_board_def split: option.splits)

lemma classify_nonempty:
  "classify text kws = Some mt \<Longrightarrow> \<forall>(k, m) \<in> set kws. k \<noteq> [] \<Longrightarrow> text \<noteq> []"
  by (induction kws) (auto split: if_splits)

lemma KEYWORD_MAP_nonempty: "\<forall>(k, m) \<in> set KEYWORD_MAP. k \<noteq> []"
  by (simp add: KEYWORD_MAP_def)

text \<open>
  One step of the anchor loop: either the anchor is skipped, or the keyword loop runs on
  its text and resolved url, which is then new and of the base url's domain.
\<close>

lemma link_loop_step:
  "link_loop L sp base d (link # links) st = link_loop L sp base d links st \<or>
   (\<exists>href. a_href link = Some href \<and>
      urljoin L base href \<notin> seen_urls st \<and>
      \<not> contains (lit ''javascript'') href \<and> \<not> contains (lit ''#'') href \<and>
      str_lower L (netloc L (urljoin L base href)) = str_lower L (netloc L base) \<and>
      link_loop L sp base d (link # links) st =
        link_loop L sp base d links
          (keyword_loop L sp d (a_text link) (urljoin L base href) KEYWORD_MAP st))"
proof (cases "a_href link")
  case None
  then show ?thesis by simp
next
  case (Some href)
  then show ?thesis
    by (simp add: Let_def del: keyword_loop.simps)
qed

section \<open>Distinct urls\<close>

lemma keyword_loop_urls:
  assumes "distinct (map b_url (boards st))" "b_url ` set (boards st) = seen_urls st"
    "full_url \<notin> seen_urls st"
  shows "distinct (map b_url (boards (keyword_loop L sp d text full_url kws st))) \<and>
     b_url ` set (boards (keyword_loop L sp d text full_url kws st))
       = seen_urls (keyword_loop L sp d text full_url kws st)"
  using assms unfolding keyword_loop_eq
  by (auto simp: add_board_def mk_board_def Let_def split: option.splits)

lemma link_loop_urls:
  "distinct (map b_url (boards st)) \<Longrightarrow> b_url ` set (boards st) = seen_urls st \<Longrightarrow>
   distinct (map b_url (boards (link_loop L sp base d links st))) \<and>
     b_url ` set (boards (link_loop L sp base d links st))
       = seen_urls (link_loop L sp base d links st)"
proof (induction links arbitrary: st)
  case Nil
  then show ?case by simp
next
  case (Cons link links)
  from link_loop_step [of L sp base d link links st] show ?case
  proof
    assume "link_loop L sp base d (link # links) st = link_loop L sp base d links st"
    then show ?thesis using Cons by simp
  next
    assume "\<exists>href. a_href link = Some href \<and>
      urljoin L base href \<notin> seen_urls st \<and>
      \<not> contains (lit ''javascript'') href \<and> \<not> contains (lit ''#'') href \<and>
      str_lower L (netloc L (urljoin L base href)) = str_lower L (netloc L base) \<and>
      link_loop L sp base d (link # links) st =
        link_loop L sp base d links
          (keyword_loop L sp d (a_text link) (urljoin L base href) KEYWORD_MAP st)"
    then obtain href where new: "urljoin L base href \<notin> seen_urls st"
      and eq: "link_loop L sp base d (link # links) st =
        link_loop L sp base d links
          (keyword_loop L sp d (a_text link) (urljoin L base href) KEYWORD_MAP st)"
      by blast
    from keyword_loop_urls [OF Cons.prems new] show ?thesis
      unfolding eq by (intro Cons.IH) auto
  qed
qed

lemma skip_seen:
  "a_href a = Some href \<Longrightarrow> urljoin L base href \<in> seen_urls st \<Longrightarrow>
   link_loop L sp base d (a # links) st = link_loop L sp base d links st"
  by (simp add: Let_def del: keyword_loop.simps)

text \<open>
  C7. The boards that one call of the board extraction returns have pairwise different
  urls, for every document, base url and default selectors. The urls marked as seen when
  the scan ends are exactly the urls of the boards, and an anchor whose resolved url is
  already marked as seen is skipped: the scan goes on over the remaining anchors with the
  state it had.
\<close>

theorem extract_boards_urls_distinct:
  "distinct (map b_url (extract_boards_from_soup L sp base_url d)) \<and>
   seen_urls (link_loop L sp base_url d (anchors sp)
                \<lparr>boards = [], seen_urls = {}, id_counts = Map.empty\<rparr>)
     = set (map b_url (extract_boards_from_soup L sp base_url d)) \<and>
   (\<forall>a href links st.
      a_href a = Some href \<and> urljoin L base_url href \<in> seen_urls st \<longrightarrow>
      link_loop L sp base_url d (a # links) st = link_loop L sp base_url d links st)"
proof (intro conjI allI impI)
  note inv = link_loop_urls [of "\<lparr>boards = [], seen_urls = {}, id_counts = Map.empty\<rparr>"
                               L sp base_url d "anchors sp"]
  from inv show "distinct (map b_url (extract_boards_from_soup L sp base_url d))"
    by (simp add: extract_boards_from_soup_def)
  from inv show "seen_urls (link_loop L sp base_url d (anchors sp)
                \<lparr>boards = [], seen_urls = {}, id_counts = Map.empty\<rparr>)
     = set (map b_url (extract_boards_from_soup L sp base_url d))"
    by (simp add: extract_boards_from_soup_def)
next
  fix a :: anchor and href links and st :: extraction
  assume "a_href a = Some href \<and> urljoin L base_url href \<in> seen_urls st"
  then show "link_loop L sp base_url d (a # links) st = link_loop L sp base_url d links st"
    using skip_seen by blast
qed

section \<open>Where boards come from\<close>

lemma keyword_loop_boards:
  "b \<in> set (boards (keyword_loop L sp d text full_url kws st)) \<Longrightarrow>
   b \<in> set (boards st) \<or>
   (b_url b = full_url \<and>
    (\<exists>sel. or_else (detect_cms_selectors L sp full_url) d = Some sel \<and>
       b = mk_board (b_id b) (b_name b) full_url sel))"
  unfolding keyword_loop_eq
  by (auto simp: add_board_def mk_board_def Let_def split: option.splits)

lemma link_loop_boards:
  "b \<in> set (boards (link_loop L sp base d links st)) \<Longrightarrow>
   b \<in> set (boards st) \<or>
   (\<exists>a \<in> set links. \<exists>href. a_href a = Some href \<and>
      b_url b = urljoin L base href \<and>
      \<not> contains (lit ''javascript'') href \<and> \<not> contains (lit ''#'') href \<and>
      str_lower L (netloc L (urljoin L base href)) = str_lower L (netloc L base) \<and>
      (\<exists>sel. or_else (detect_cms_selectors L sp (urljoin L base href)) d = Some sel \<and>
         b = mk_board (b_id b) (b_name b) (urljoin L base href) sel))"
proof (induction links arbitrary: st)
  case Nil
  then show ?case by simp
next
  case (Cons link links)
  from link_loop_step [of L sp base d link links st] show ?case
  proof
    assume "link_loop L sp base d (link # links) st = link_loop L sp base d links st"
    then show ?thesis using Cons.IH [of st] Cons.prems by auto
  next
    assume "\<exists>href. a_href link = Some href \<and>
      urljoin L base href \<notin> seen_urls st \<and>
      \<not> contains (lit ''javascript'') href \<and> \<not> contains (lit ''#'') href \<and>
      str_lower L (netloc L (urljoin L base href)) = str_lower L (netloc L base) \<and>
      link_loop L sp base d (link # links) st =
        link_loop L sp base d links
          (keyword_loop L sp d (a_text link) (urljoin L base href) KEYWORD_MAP st)"
    then obtain href where h: "a_href link = Some href"
      "\<not> contains (lit ''javascript'') href" "\<not> contains (lit ''#'') href"
      "str_lower L (netloc L (urljoin L base href)) = str_lower L (netloc L base)"
      and eq: "link_loop L sp base d (link # links) st =
        link_loop L sp base d links
          (keyword_loop L sp d (a_text link) (urljoin L base href) KEYWORD_MAP st)"
      by blast
    let ?st = "keyword_loop L sp d (a_text link) (urljoin L base href) KEYWORD_MAP st"
    from Cons.prems have "b \<in> set (boards (link_loop L sp base d links ?st))"
      unfolding eq .
    from Cons.IH [OF this] show ?thesis
    proof
      assume "b \<in> set (boards ?st)"
      from keyword_loop_boards [OF this] show ?thesis using h by auto
    next
      assume "\<exists>a \<in> set links. \<exists>href. a_href a = Some href \<and>
        b_url b = urljoin L base href \<and>
        \<not> contains (lit ''javascript'') href \<and> \<not> contains (lit ''#'') href \<and>
        str_lower L (netloc L (urljoin L base href)) = str_lower L (netloc L base) \<and>
        (\<exists>sel. or_else (detect_cms_selectors L sp (urljoin L base href)) d = Some sel \<and>
           b = mk_board (b_id b) (b_name b) (urljoin L base href) sel)"
      then show ?thesis by auto
    qed
  qed
qed

lemma extract_boards_origin:
  assumes "b \<in> set (extract_boards_from_soup L sp base d)"
  shows "\<exists>a \<in> set (anchors sp). \<exists>href. a_href a = Some href \<and>
      b_url b = urljoin L base href \<and>
      \<not> contains (lit ''javascript'') href \<and> \<not> contains (lit ''#'') href \<and>
      str_lower L (netloc L (urljoin L base href)) = str_lower L (netloc L base) \<and>
      (\<exists>sel. or_else (detect_cms_selectors L sp (urljoin L base href)) d = Some sel \<and>
         b = mk_board (b_id b) (b_name b) (urljoin L base href) sel)"
  using link_loop_boards [of b L sp base d "anchors sp"
          "\<lparr>boards = [], seen_urls = {}, id_counts = Map.empty\<rparr>"] assms
  by (simp add: extract_boards_from_soup_def)

lemma skip_script_or_fragment:
  "a_href a = Some href \<Longrightarrow>
   contains (lit ''javascript'') href \<or> contains (lit ''#'') href \<Longrightarrow>
   link_loop L sp base d (a # links) st = link_loop L sp base d links st"
  by (auto simp: Let_def simp del: keyword_loop.simps)

text \<open>
  C8, amended. Every board that the board extraction returns has a url whose network
  location, lower-cased, is that of the base url, and comes from an anchor of the
  document: its url is the href of that anchor resolved against the base url, and that
  href contains neither the lower-case string \<open>javascript\<close> nor \<open>#\<close>. An anchor whose
  href contains one of the two is skipped: the extraction goes on with the state it had.
\<close>

theorem extract_boards_same_origin:
  "(\<forall>b \<in> set (extract_boards_from_soup L sp base_url d).
      str_lower L (netloc L (b_url b)) = str_lower L (netloc L base_url) \<and>
      (\<exists>a \<in> set (anchors sp). from_anchor L base_url a b)) \<and>
   (\<forall>a href links st.
      a_href a = Some href \<and>
      (contains (lit ''javascript'') href \<or> contains (lit ''#'') href) \<longrightarrow>
      link_loop L sp base_url d (a # links) st = link_loop L sp base_url d links st)"
proof (intro conjI ballI allI impI)
  fix b assume b: "b \<in> set (extract_boards_from_soup L sp base_url d)"
  from extract_boards_origin [OF b]
  show "str_lower L (netloc L (b_url b)) = str_lower L (netloc L base_url)"
    by auto
  from extract_boards_origin [OF b]
  obtain a href where "a \<in> set (anchors sp)" "a_href a = Some href"
    "b_url b = urljoin L base_url href" "\<not> contains (lit ''javascript'') href"
    "\<not> contains (lit ''#'') href"
    by blast
  then have "a \<in> set (anchors sp)" "from_anchor L base_url a b"
    by (simp_all add: from_anchor_def)
  then show "\<exists>a \<in> set (anchors sp). from_anchor L base_url a b" ..
next
  fix a :: anchor and href links st
  assume "a_href a = Some href \<and>
      (contains (lit ''javascript'') href \<or> contains (lit ''#'') href)"
  then show "link_loop L sp base_url d (a # links) st = link_loop L sp base_url d links st"
    using skip_script_or_fragment by blast
qed

section \<open>Board ids\<close>

lemma add_board_ids_ok:
  assumes inv: "ids_ok st" and cl: "classify text KEYWORD_MAP = Some mt"
  shows "ids_ok (add_board st mt text full_url sel)"
proof -
  have ne: "text \<noteq> []" using classify_nonempty[OF cl KEYWORD_MAP_nonempty] .
  define n where "n = (case id_counts st (m_id mt) of None \<Rightarrow> 0 | Some c \<Rightarrow> c) + 1"
  define nb where
    "nb = mk_board (if n > 1 then m_id mt @ lit ''_'' @ str_nat n else m_id mt) text full_url sel"
  define bs where "bs = boards st"
  have st': "add_board st mt text full_url sel =
     \<lparr>boards = bs @ [nb], seen_urls = insert full_url (seen_urls st),
      id_counts = (id_counts st)(m_id mt \<mapsto> n)\<rparr>"
    using ne by (simp add: add_board_def Let_def n_def nb_def bs_def)
  have cat: "category nb = Some (m_id mt)"
    using cl by (simp add: category_def mk_board_def nb_def)
  have n: "n = count_cat (m_id mt) bs + 1"
    using inv by (simp add: ids_ok_def n_def bs_def)
  have old: "(case id_counts st X of None \<Rightarrow> 0 | Some c \<Rightarrow> c) = count_cat X bs" for X
    using inv by (simp add: ids_ok_def bs_def)
  have c1: "(case ((id_counts st)(m_id mt \<mapsto> n)) X of None \<Rightarrow> 0 | Some c \<Rightarrow> c)
               = count_cat X (bs @ [nb])" for X
  proof (cases "X = m_id mt")
    case True
    then show ?thesis using cat n by (simp add: count_cat_def)
  next
    case False
    then show ?thesis using cat old[of X] by (simp add: count_cat_def)
  qed
  have c2: "\<exists>X. category ((bs @ [nb]) ! i) = Some X \<and>
        b_id ((bs @ [nb]) ! i) =
          (if count_cat X (take (Suc i) (bs @ [nb])) > 1
           then X @ lit ''_'' @ str_nat (count_cat X (take (Suc i) (bs @ [nb]))) else X)"
    if "i < length (bs @ [nb])" for i
  proof (cases "i < length bs")
    case True
    from inv True obtain X where X: "category (bs ! i) = Some X"
      "b_id (bs ! i) =
          (if count_cat X (take (Suc i) bs) > 1
           then X @ lit ''_'' @ str_nat (count_cat X (take (Suc i) bs)) else X)"
      unfolding ids_ok_def bs_def by blast
    have e1: "(bs @ [nb]) ! i = bs ! i"
      using True by (simp add: nth_append)
    have e2: "take (Suc i) (bs @ [nb]) = take (Suc i) bs"
      using True by simp
    show ?thesis unfolding e1 e2 using X by blast
  next
    case False
    then have i: "i = length bs" using that by simp
    have e1: "(bs @ [nb]) ! i = nb" using i by simp
    have e2: "take (Suc i) (bs @ [nb]) = bs @ [nb]" using i by simp
    have e3: "count_cat (m_id mt) (bs @ [nb]) = n"
      using cat n by (simp add: count_cat_def)
    have e4: "b_id nb = (if n > 1 then m_id mt @ lit ''_'' @ str_nat n else m_id mt)"
      by (simp add: mk_board_def nb_def)
    show ?thesis unfolding e1 e2 using cat e3 e4 by metis
  qed
  show ?thesis unfolding st' ids_ok_def extraction.simps using c1 c2 by blast
qed

lemma keyword_loop_ids_ok:
  "ids_ok st \<Longrightarrow> ids_ok (keyword_loop L sp d text full_url KEYWORD_MAP st)"
  unfolding keyword_loop_eq by (auto split: option.splits intro: add_board_ids_ok)

lemma link_loop_ids_ok:
  "ids_ok st \<Longrightarrow> ids_ok (link_loop L sp base d links st)"
proof (induction links arbitrary: st)
  case Nil
  then show ?case by simp
next
  case (Cons link links)
  from link_loop_step [of L sp base d link links st] show ?case
    using Cons.IH Cons.prems keyword_loop_ids_ok by (metis (no_types, lifting))
qed

lemma ids_ok_init: "ids_ok \<lparr>boards = [], seen_urls = {}, id_counts = Map.empty\<rparr>"
  by (simp add: ids_ok_def count_cat_def)

lemma count_cat_pos:
  "i < length bs \<Longrightarrow> category (bs ! i) = Some X \<Longrightarrow> 1 \<le> count_cat X (take (Suc i) bs)"
proof -
  assume i: "i < length bs" and c: "category (bs ! i) = Some X"
  have "bs ! i \<in> set (filter (\<lambda>b. category b = Some X) (take (Suc i) bs))"
    using i c by (simp add: take_Suc_conv_app_nth)
  then have "filter (\<lambda>b. category b = Some X) (take (Suc i) bs) \<noteq> []"
    by (metis empty_iff empty_set)
  then show ?thesis unfolding count_cat_def by (simp add: Suc_leI)
qed

text \<open>
  C6. In the list that one call of the board extraction returns, every board has a
  category \<open>X\<close> (the id of the first keyword of the table that its name contains), and
  when it is the \<open>N\<close>-th board of that category in the list, its id is \<open>X\<close> for
  \<open>N = 1\<close> and \<open>X_N\<close> for \<open>N > 1\<close>. The counters start empty in every call.
\<close>

theorem board_ids_numbered:
  assumes "i < length (extract_boards_from_soup L sp base_url d)"
  shows "\<exists>X. category (extract_boards_from_soup L sp base_url d ! i) = Some X \<and>
     (let N = length (filter (\<lambda>b. category b = Some X)
                 (take (Suc i) (extract_boards_from_soup L sp base_url d)))
      in N \<ge> 1 \<and>
         (N = 1 \<longrightarrow> b_id (extract_boards_from_soup L sp base_url d ! i) = X) \<and>
         (N > 1 \<longrightarrow> b_id (extract_boards_from_soup L sp base_url d ! i)
                        = X @ lit ''_'' @ str_nat N))"
proof -
  let ?st = "link_loop L sp base_url d (anchors sp)
               \<lparr>boards = [], seen_urls = {}, id_counts = Map.empty\<rparr>"
  have ok: "ids_ok ?st" by (rule link_loop_ids_ok[OF ids_ok_init])
  have i: "i < length (boards ?st)" using assms by (simp add: extract_boards_from_soup_def)
  from ok i obtain X where X: "category (boards ?st ! i) = Some X"
     "b_id (boards ?st ! i) =
          (if count_cat X (take (Suc i) (boards ?st)) > 1
           then X @ lit ''_'' @ str_nat (count_cat X (take (Suc i) (boards ?st))) else X)"
    unfolding ids_ok_def by blast
  have "count_cat X (take (Suc i) (boards ?st)) \<ge> 1"
    using count_cat_pos [OF i X(1)] .
  then show ?thesis using X
    by (intro exI[of _ X]) (auto simp: extract_boards_from_soup_def count_cat_def Let_def)
qed

section \<open>Selector bundles\<close>

lemma detect_cms_selectors_range:
  "detect_cms_selectors L sp url = None \<or> detect_cms_selectors L sp url = Some yonsei_cms
     \<or> detect_cms_selectors L sp url = Some xe_board"
  by (simp add: detect_cms_selectors_def Let_def)

lemma or_else_range:
  assumes "d = None \<or> d = Some yonsei_cms \<or> d = Some xe_board"
    and "or_else (detect_cms_selectors L sp url) d = Some sel"
  shows "sel = yonsei_cms \<or> sel = xe_board"
  using assms detect_cms_selectors_range [of L sp url]
  by (auto simp: or_else_def split: option.splits)

lemma extract_boards_bundle:
  assumes d: "d = None \<or> d = Some yonsei_cms \<or> d = Some xe_board"
    and b: "b \<in> set (extract_boards_from_soup L sp base d)"
  shows "b = mk_board (b_id b) (b_name b) (b_url b) yonsei_cms \<or>
         b = mk_board (b_id b) (b_name b) (b_url b) xe_board"
proof -
  from extract_boards_origin [OF b] obtain href sel where
    u: "b_url b = urljoin L base href" and
    s: "or_else (detect_cms_selectors L sp (urljoin L base href)) d = Some sel" and
    e: "b = mk_board (b_id b) (b_name b) (urljoin L base href) sel"
    by blast
  from or_else_range [OF d s] show ?thesis using e u by metis
qed

lemma bundles_differ: "yonsei_cms \<noteq> xe_board"
  by (simp add: yonsei_cms_def xe_board_def lit_def)

lemma str_nat_2: "str_nat (Suc (Suc 0)) = [50]" by (simp add: str_nat.simps)

lemmas eval_simps = extract_boards_from_soup_def simple_lib_def lit_def
      is_valid_board_link_def blacklist_def simple_urljoin_def simple_netloc_def ascii_lower_def
      KEYWORD_MAP_def detect_cms_selectors_def or_else_def str_nat_2 Let_def

lemma cs_home_boards:
  "extract_boards_from_soup simple_lib cs_home cs_url None =
     [mk_board (lit ''academic'') [54617, 49324, 44277, 51648]
        (lit ''https://cs.yonsei.ac.kr/board/list.do?id=1'') yonsei_cms,
      mk_board (lit ''academic_2'') [54617, 48512, 44277, 51648]
        (lit ''https://cs.yonsei.ac.kr/board/ug.do'') yonsei_cms]"
  by (simp add: eval_simps cs_home_def cs_url_def)

lemma cs_sitemap_boards:
  "extract_boards_from_soup simple_lib cs_sitemap cs_url None =
     [mk_board (lit ''scholarship'') [51109, 54617]
        (lit ''https://cs.yonsei.ac.kr/s.do'') yonsei_cms]"
  by (simp add: eval_simps cs_sitemap_def cs_url_def)

lemma cs_detect: "detect_cms_selectors simple_lib cs_home cs_url = None"
  by (simp add: eval_simps cs_home_def cs_url_def)

lemma cs_find_sitemap:
  "find_sitemap simple_lib cs_web cs_home cs_url =
     (Some cs_sitemap, [Fetched (lit ''https://cs.yonsei.ac.kr/sitemap'') 5])"
  by (simp add: find_sitemap_def eval_simps simple_sitemap_search_def cs_home_def cs_url_def cs_web_def)

lemma cs_url_valid: "cs_url \<noteq> lit ''NOT_FOUND'' \<and> startswith cs_url (lit ''http'')"
  by (simp add: cs_url_def lit_def startswith_def)


section \<open>Witnesses of the extraction claims\<close>

lemma cs_home_categories:
  "category (mk_board i [54617, 49324, 44277, 51648] u s) = Some (lit ''academic'')"
  "category (mk_board i [54617, 48512, 44277, 51648] u s) = Some (lit ''academic'')"
  by (simp_all add: category_def mk_board_def KEYWORD_MAP_def)

theorem board_ids_numbered_witness:
  "1 < length (extract_boards_from_soup simple_lib cs_home cs_url None) \<and>
   category (extract_boards_from_soup simple_lib cs_home cs_url None ! 1)
     = Some (lit ''academic'') \<and>
   b_id (extract_boards_from_soup simple_lib cs_home cs_url None ! 1)
     = lit ''academic'' @ lit ''_'' @ str_nat 2"
proof -
  let ?bs = "extract_boards_from_soup simple_lib cs_home cs_url None"
  have len: "1 < length ?bs" by (simp add: cs_home_boards)
  have cat: "category (?bs ! 1) = Some (lit ''academic'')"
    by (simp add: cs_home_boards cs_home_categories)
  have N: "length (filter (\<lambda>b. category b = Some (lit ''academic'')) (take (Suc 1) ?bs)) = 2"
    by (simp add: cs_home_boards cs_home_categories)
  from board_ids_numbered [OF len] obtain X where
    X: "category (?bs ! 1) = Some X" and
    n: "let N = length (filter (\<lambda>b. category b = Some X) (take (Suc 1) ?bs))
        in N \<ge> 1 \<and> (N = 1 \<longrightarrow> b_id (?bs ! 1) = X) \<and>
           (N > 1 \<longrightarrow> b_id (?bs ! 1) = X @ lit ''_'' @ str_nat N)"
    by blast
  from X cat have "X = lit ''academic''" by simp
  with n N have "b_id (?bs ! 1) = lit ''academic'' @ lit ''_'' @ str_nat 2"
    by (simp add: Let_def)
  with len cat show ?thesis by blast
qed

theorem extract_boards_urls_distinct_witness:
  "distinct (map b_url (extract_boards_from_soup simple_lib cs_home cs_url None)) \<and>
   length (extract_boards_from_soup simple_lib cs_home cs_url None) = 2 \<and>
   a_href (anchors cs_home ! 4) = Some (lit ''/board/list.do?id=1'') \<and>
   urljoin simple_lib cs_url (lit ''/board/list.do?id=1'')
     \<in> {lit ''https://cs.yonsei.ac.kr/board/list.do?id=1''} \<and>
   link_loop simple_lib cs_home cs_url None [anchors cs_home ! 4]
       \<lparr>boards = [mk_board (lit ''academic'') [54617, 49324, 44277, 51648]
                    (lit ''https://cs.yonsei.ac.kr/board/list.do?id=1'') yonsei_cms],
        seen_urls = {lit ''https://cs.yonsei.ac.kr/board/list.do?id=1''},
        id_counts = [lit ''academic'' \<mapsto> 1]\<rparr>
     = \<lparr>boards = [mk_board (lit ''academic'') [54617, 49324, 44277, 51648]
                    (lit ''https://cs.yonsei.ac.kr/board/list.do?id=1'') yonsei_cms],
        seen_urls = {lit ''https://cs.yonsei.ac.kr/board/list.do?id=1''},
        id_counts = [lit ''academic'' \<mapsto> 1]\<rparr>"
proof -
  let ?st = "\<lparr>boards = [mk_board (lit ''academic'') [54617, 49324, 44277, 51648]
                    (lit ''https://cs.yonsei.ac.kr/board/list.do?id=1'') yonsei_cms],
        seen_urls = {lit ''https://cs.yonsei.ac.kr/board/list.do?id=1''},
        id_counts = [lit ''academic'' \<mapsto> (1::nat)]\<rparr>"
  note inst = extract_boards_urls_distinct [of simple_lib cs_home cs_url None]
  from inst have 1: "distinct (map b_url (extract_boards_from_soup simple_lib cs_home cs_url None))"
    by (rule conjunct1)
  have 2: "length (extract_boards_from_soup simple_lib cs_home cs_url None) = 2"
    by (simp add: cs_home_boards)
  have 3: "a_href (anchors cs_home ! 4) = Some (lit ''/board/list.do?id=1'')"
    by (simp add: cs_home_def)
  have 4: "urljoin simple_lib cs_url (lit ''/board/list.do?id=1'')
     \<in> {lit ''https://cs.yonsei.ac.kr/board/list.do?id=1''}"
    by (simp add: eval_simps cs_url_def)
  then have 5: "urljoin simple_lib cs_url (lit ''/board/list.do?id=1'') \<in> seen_urls ?st"
    by simp
  from inst have "\<forall>a href links st.
      a_href a = Some href \<and> urljoin simple_lib cs_url href \<in> seen_urls st \<longrightarrow>
      link_loop simple_lib cs_home cs_url None (a # links) st
        = link_loop simple_lib cs_home cs_url None links st"
    by blast
  from this [rule_format, OF conjI [OF 3 5]]
  have "link_loop simple_lib cs_home cs_url None (anchors cs_home ! 4 # []) ?st
      = link_loop simple_lib cs_home cs_url None [] ?st" .
  then have 6: "link_loop simple_lib cs_home cs_url None [anchors cs_home ! 4] ?st = ?st"
    by (simp only: link_loop.simps(1))
  show ?thesis by (intro conjI) (rule 1 2 3 4 6)+
qed

theorem extract_boards_same_origin_witness:
  "extract_boards_from_soup simple_lib cs_home cs_url None ! 0
     \<in> set (extract_boards_from_soup simple_lib cs_home cs_url None) \<and>
   str_lower simple_lib
     (netloc simple_lib (b_url (extract_boards_from_soup simple_lib cs_home cs_url None ! 0)))
     = lit ''cs.yonsei.ac.kr'' \<and>
   (\<exists>a \<in> set (anchors cs_home).
      from_anchor simple_lib cs_url a
        (extract_boards_from_soup simple_lib cs_home cs_url None ! 0)) \<and>
   a_href (anchors cs_home ! 2) = Some (lit ''javascript:void(0)'') \<and>
   contains (lit ''javascript'') (lit ''javascript:void(0)'') \<and>
   link_loop simple_lib cs_home cs_url None [anchors cs_home ! 2]
       \<lparr>boards = [], seen_urls = {}, id_counts = Map.empty\<rparr>
     = \<lparr>boards = [], seen_urls = {}, id_counts = Map.empty\<rparr>"
proof -
  let ?bs = "extract_boards_from_soup simple_lib cs_home cs_url None"
  let ?st = "\<lparr>boards = [], seen_urls = {}, id_counts = Map.empty\<rparr>"
  note inst = extract_boards_same_origin [of simple_lib cs_home cs_url None]
  have m: "?bs ! 0 \<in> set ?bs" by (simp add: cs_home_boards)
  have base: "str_lower simple_lib (netloc simple_lib cs_url) = lit ''cs.yonsei.ac.kr''"
    by (simp add: eval_simps cs_url_def)
  from inst m have 1: "str_lower simple_lib (netloc simple_lib (b_url (?bs ! 0)))
      = str_lower simple_lib (netloc simple_lib cs_url)"
    and 2: "\<exists>a \<in> set (anchors cs_home). from_anchor simple_lib cs_url a (?bs ! 0)"
    by blast+
  have h: "a_href (anchors cs_home ! 2) = Some (lit ''javascript:void(0)'')"
    by (simp add: cs_home_def)
  have c: "contains (lit ''javascript'') (lit ''javascript:void(0)'')"
    by (simp add: lit_def)
  from inst h c have "link_loop simple_lib cs_home cs_url None (anchors cs_home ! 2 # []) ?st
      = link_loop simple_lib cs_home cs_url None [] ?st"
    by blast
  then have 3: "link_loop simple_lib cs_home cs_url None [anchors cs_home ! 2] ?st = ?st"
    by simp
  from m 1 2 h c 3 base show ?thesis by simp
qed

lemma bundle_fields:
  "b = mk_board i n u yonsei_cms \<Longrightarrow>
     row_selector b = lit ''tr:has(a.c-board-title)'' \<and>
     title_selector b = lit ''a.c-board-title'' \<and>
     date_selector b = lit ''td:nth-last-child(1)'' \<and> attr_name b = lit ''href''"
  "b = mk_board i n u xe_board \<Longrightarrow>
     row_selector b = lit ''li.xe-list-board-list--item:not(.xe-list-board-list--header)'' \<and>
     title_selector b = lit ''a.xe-list-board-list__title-link'' \<and>
     date_selector b = lit ''.xe-list-board-list__created_at'' \<and> attr_name b = lit ''href''"
  by (simp_all add: mk_board_def yonsei_cms_def xe_board_def)

lemma extract_boards_fields:
  assumes "b \<in> set (extract_boards_from_soup L s u (detect_cms_selectors L s' u'))"
  shows "(row_selector b = lit ''tr:has(a.c-board-title)'' \<and>
       title_selector b = lit ''a.c-board-title'' \<and>
       date_selector b = lit ''td:nth-last-child(1)'' \<and> attr_name b = lit ''href'') \<or>
      (row_selector b = lit ''li.xe-list-board-list--item:not(.xe-list-board-list--header)'' \<and>
       title_selector b = lit ''a.xe-list-board-list__title-link'' \<and>
       date_selector b = lit ''.xe-list-board-list__created_at'' \<and>
       attr_name b = lit ''href'')"
  using extract_boards_bundle [OF detect_cms_selectors_range assms] bundle_fields by blast

lemma discovered_from_extraction:
  "b \<in> set (r_boards (fst (discover_boards L get_soup info dept_url))) \<Longrightarrow>
     \<exists>s s' u'. b \<in> set (extract_boards_from_soup L s dept_url (detect_cms_selectors L s' u'))"
  unfolding discover_boards_def
  by (auto simp: Let_def split: if_splits option.splits prod.splits)

text \<open>
  C10. Every board that \<open>discover_boards\<close> returns carries, in its four selector fields,
  one of the two fixed bundles of the detector: the table-based one or the list-based
  one, which differ; in both its \<open>attr_name\<close> is \<open>href\<close>. The same holds for the boards of
  any run of the board extraction whose default selectors come from the detector.
\<close>

theorem discovered_boards_bundles:
  "(\<forall>b \<in> set (r_boards (fst (discover_boards L get_soup info dept_url))).
      ((row_selector b = lit ''tr:has(a.c-board-title)'' \<and>
        title_selector b = lit ''a.c-board-title'' \<and>
        date_selector b = lit ''td:nth-last-child(1)'' \<and> attr_name b = lit ''href'') \<or>
       (row_selector b = lit ''li.xe-list-board-list--item:not(.xe-list-board-list--header)'' \<and>
        title_selector b = lit ''a.xe-list-board-list__title-link'' \<and>
        date_selector b = lit ''.xe-list-board-list__created_at'' \<and>
        attr_name b = lit ''href'')) \<and>
      attr_name b = lit ''href'') \<and>
   (\<forall>b \<in> set (extract_boards_from_soup L sp base_url (detect_cms_selectors L sp' url')).
      ((row_selector b = lit ''tr:has(a.c-board-title)'' \<and>
        title_selector b = lit ''a.c-board-title'' \<and>
        date_selector b = lit ''td:nth-last-child(1)'' \<and> attr_name b = lit ''href'') \<or>
       (row_selector b = lit ''li.xe-list-board-list--item:not(.xe-list-board-list--header)'' \<and>
        title_selector b = lit ''a.xe-list-board-list__title-link'' \<and>
        date_selector b = lit ''.xe-list-board-list__created_at'' \<and>
        attr_name b = lit ''href'')) \<and>
      attr_name b = lit ''href'') \<and>
   lit ''tr:has(a.c-board-title)''
     \<noteq> lit ''li.xe-list-board-list--item:not(.xe-list-board-list--header)''"
proof (intro conjI ballI)
  fix b assume "b \<in> set (r_boards (fst (discover_boards L get_soup info dept_url)))"
  from discovered_from_extraction [OF this] obtain s s' u' where
    b: "b \<in> set (extract_boards_from_soup L s dept_url (detect_cms_selectors L s' u'))"
    by blast
  from extract_boards_fields [OF b]
  show "(row_selector b = lit ''tr:has(a.c-board-title)'' \<and>
        title_selector b = lit ''a.c-board-title'' \<and>
        date_selector b = lit ''td:nth-last-child(1)'' \<and> attr_name b = lit ''href'') \<or>
       (row_selector b = lit ''li.xe-list-board-list--item:not(.xe-list-board-list--header)'' \<and>
        title_selector b = lit ''a.xe-list-board-list__title-link'' \<and>
        date_selector b = lit ''.xe-list-board-list__created_at'' \<and>
        attr_name b = lit ''href'')" .
  from extract_boards_fields [OF b] show "attr_name b = lit ''href''" by blast
next
  fix b
  assume b: "b \<in> set (extract_boards_from_soup L sp base_url (detect_cms_selectors L sp' url'))"
  from extract_boards_fields [OF b]
  show "(row_selector b = lit ''tr:has(a.c-board-title)'' \<and>
        title_selector b = lit ''a.c-board-title'' \<and>
        date_selector b = lit ''td:nth-last-child(1)'' \<and> attr_name b = lit ''href'') \<or>
       (row_selector b = lit ''li.xe-list-board-list--item:not(.xe-list-board-list--header)'' \<and>
        title_selector b = lit ''a.xe-list-board-list__title-link'' \<and>
        date_selector b = lit ''.xe-list-board-list__created_at'' \<and>
        attr_name b = lit ''href'')" .
  from extract_boards_fields [OF b] show "attr_name b = lit ''href''" by blast
next
  show "lit ''tr:has(a.c-board-title)''
     \<noteq> lit ''li.xe-list-board-list--item:not(.xe-list-board-list--header)''"
    by (simp add: lit_def)
qed

theorem discovered_boards_bundles_witness:
  "r_boards (fst (discover_boards simple_lib cs_web cs_info cs_url)) ! 0
     \<in> set (r_boards (fst (discover_boards simple_lib cs_web cs_info cs_url))) \<and>
   b_url (r_boards (fst (discover_boards simple_lib cs_web cs_info cs_url)) ! 0)
     = lit ''https://cs.yonsei.ac.kr/s.do'' \<and>
   row_selector (r_boards (fst (discover_boards simple_lib cs_web cs_info cs_url)) ! 0)
     = lit ''tr:has(a.c-board-title)'' \<and>
   title_selector (r_boards (fst (discover_boards simple_lib cs_web cs_info cs_url)) ! 0)
     = lit ''a.c-board-title'' \<and>
   date_selector (r_boards (fst (discover_boards simple_lib cs_web cs_info cs_url)) ! 0)
     = lit ''td:nth-last-child(1)'' \<and>
   attr_name (r_boards (fst (discover_boards simple_lib cs_web cs_info cs_url)) ! 0)
     = lit ''href''"
proof -
  let ?bs = "r_boards (fst (discover_boards simple_lib cs_web cs_info cs_url))"
  have bs: "?bs = [mk_board (lit ''scholarship'') [51109, 54617]
                     (lit ''https://cs.yonsei.ac.kr/s.do'') yonsei_cms]"
    using cs_url_valid
    by (simp add: discover_boards_def cs_detect cs_find_sitemap cs_sitemap_boards cs_web_def)
  then have m: "?bs ! 0 \<in> set ?bs" by simp
  have u: "b_url (?bs ! 0) = lit ''https://cs.yonsei.ac.kr/s.do''"
    by (simp add: bs mk_board_def)
  have r: "row_selector (?bs ! 0) = lit ''tr:has(a.c-board-title)''"
    by (simp add: bs mk_board_def yonsei_cms_def)
  have ne: "lit ''tr:has(a.c-board-title)''
     \<noteq> lit ''li.xe-list-board-list--item:not(.xe-list-board-list--header)''"
    by (simp add: lit_def)
  from discovered_boards_bundles [of simple_lib cs_web cs_info cs_url] m
  have "((row_selector (?bs ! 0) = lit ''tr:has(a.c-board-title)'' \<and>
        title_selector (?bs ! 0) = lit ''a.c-board-title'' \<and>
        date_selector (?bs ! 0) = lit ''td:nth-last-child(1)'' \<and>
        attr_name (?bs ! 0) = lit ''href'') \<or>
       (row_selector (?bs ! 0)
          = lit ''li.xe-list-board-list--item:not(.xe-list-board-list--header)'' \<and>
        title_selector (?bs ! 0) = lit ''a.xe-list-board-list__title-link'' \<and>
        date_selector (?bs ! 0) = lit ''.xe-list-board-list__created_at'' \<and>
        attr_name (?bs ! 0) = lit ''href''))"
    by blast
  with r ne have "title_selector (?bs ! 0) = lit ''a.c-board-title'' \<and>
        date_selector (?bs ! 0) = lit ''td:nth-last-child(1)'' \<and>
        attr_name (?bs ! 0) = lit ''href''"
    by metis
  with m u r show ?thesis by blast
qed

text \<open>
  C8, as stated, fails. An anchor whose href is \<open>JavaScript://cs.yonsei.ac.kr/...\<close> is a
  script pseudo-link: its scheme is \<open>javascript\<close>, written in mixed case. The href does
  not contain the lower-case string \<open>javascript\<close>, it resolves to itself, its network
  location is the department's host, and the anchor becomes a board.
\<close>

theorem extract_boards_script_link_counterexample:
  "a_href (anchors js_home ! 0)
     = Some (lit ''JavaScript://cs.yonsei.ac.kr/%0Aalert(1)//list.do'') \<and>
   script_pseudo_link (lit ''JavaScript://cs.yonsei.ac.kr/%0Aalert(1)//list.do'') \<and>
   map b_url (extract_boards_from_soup simple_lib js_home cs_url None)
     = [lit ''JavaScript://cs.yonsei.ac.kr/%0Aalert(1)//list.do''] \<and>
   map b_id (extract_boards_from_soup simple_lib js_home cs_url None) = [lit ''notice'']"
  by (simp add: eval_simps js_home_def cs_url_def script_pseudo_link_def mk_board_def)

section \<open>discover_boards\<close>

text \<open>
  C2, as stated with the reasons \<open>invalid homepage URL\<close> and \<open>homepage fetch failed\<close>,
  fails: for the url \<open>NOT_FOUND\<close> the reason of the item is the string
  \<open>Homepage URL is invalid\<close>, and for a url that cannot be fetched it is
  \<open>Failed to fetch homepage\<close>.
\<close>

theorem discover_boards_reason_counterexample:
  "manual_review (fst (discover_boards simple_lib no_web cs_info (lit ''NOT_FOUND'')))
     = Some \<lparr>mr_campus = lit ''Sinchon'', mr_name = lit ''CS'', mr_url = lit ''NOT_FOUND'',
             reason = lit ''Homepage URL is invalid''\<rparr> \<and>
   lit ''Homepage URL is invalid'' \<noteq> lit ''invalid homepage URL'' \<and>
   manual_review (fst (discover_boards simple_lib no_web cs_info cs_url))
     = Some \<lparr>mr_campus = lit ''Sinchon'', mr_name = lit ''CS'', mr_url = cs_url,
             reason = lit ''Failed to fetch homepage''\<rparr> \<and>
   lit ''Failed to fetch homepage'' \<noteq> lit ''homepage fetch failed''"
  using cs_url_valid
  by (simp add: discover_boards_def no_web_def cs_info_def) (simp add: lit_def)

text \<open>
  C2, amended. The result of \<open>discover_boards\<close> has a manual-review item if and only if
  the url is \<open>NOT_FOUND\<close> or does not start with \<open>http\<close>, or the fetch of the homepage
  fails. In the first case the reason is \<open>Homepage URL is invalid\<close>, the board list is
  empty and nothing is fetched; in the second the reason is \<open>Failed to fetch homepage\<close>
  and the board list is empty. When the fetch succeeds and the extraction yields no board
  from the homepage nor from the sitemap (if one is found), the result has no
  manual-review item and an empty board list.
\<close>

theorem discover_boards_manual_review:
  "(manual_review (fst (discover_boards L get_soup info dept_url)) \<noteq> None \<longleftrightarrow>
      dept_url = lit ''NOT_FOUND'' \<or> \<not> startswith dept_url (lit ''http'')
        \<or> get_soup dept_url 7 = None) \<and>
   (dept_url = lit ''NOT_FOUND'' \<or> \<not> startswith dept_url (lit ''http'') \<longrightarrow>
      discover_boards L get_soup info dept_url =
        (\<lparr>r_boards = [],
          manual_review = Some \<lparr>mr_campus = di_campus info, mr_name = di_name info,
                                mr_url = dept_url,
                                reason = lit ''Homepage URL is invalid''\<rparr>\<rparr>, [])) \<and>
   (dept_url \<noteq> lit ''NOT_FOUND'' \<and> startswith dept_url (lit ''http'')
      \<and> get_soup dept_url 7 = None \<longrightarrow>
      fst (discover_boards L get_soup info dept_url) =
        \<lparr>r_boards = [],
         manual_review = Some \<lparr>mr_campus = di_campus info, mr_name = di_name info,
                               mr_url = dept_url,
                               reason = lit ''Failed to fetch homepage''\<rparr>\<rparr>) \<and>
   (\<forall>sp. dept_url \<noteq> lit ''NOT_FOUND'' \<and> startswith dept_url (lit ''http'')
      \<and> get_soup dept_url 7 = Some sp
      \<and> extract_boards_from_soup L sp dept_url (detect_cms_selectors L sp dept_url) = []
      \<and> (\<forall>sm. fst (find_sitemap L get_soup sp dept_url) = Some sm \<longrightarrow>
            extract_boards_from_soup L sm dept_url (detect_cms_selectors L sp dept_url) = [])
      \<longrightarrow> fst (discover_boards L get_soup info dept_url)
            = \<lparr>r_boards = [], manual_review = None\<rparr>)"
proof (intro conjI allI impI)
  show "manual_review (fst (discover_boards L get_soup info dept_url)) \<noteq> None \<longleftrightarrow>
      dept_url = lit ''NOT_FOUND'' \<or> \<not> startswith dept_url (lit ''http'')
        \<or> get_soup dept_url 7 = None"
    by (auto simp: discover_boards_def Let_def split: option.splits prod.splits)
next
  assume "dept_url = lit ''NOT_FOUND'' \<or> \<not> startswith dept_url (lit ''http'')"
  then show "discover_boards L get_soup info dept_url =
        (\<lparr>r_boards = [],
          manual_review = Some \<lparr>mr_campus = di_campus info, mr_name = di_name info,
                                mr_url = dept_url,
                                reason = lit ''Homepage URL is invalid''\<rparr>\<rparr>, [])"
    by (auto simp: discover_boards_def)
next
  assume "dept_url \<noteq> lit ''NOT_FOUND'' \<and> startswith dept_url (lit ''http'')
      \<and> get_soup dept_url 7 = None"
  then show "fst (discover_boards L get_soup info dept_url) =
        \<lparr>r_boards = [],
         manual_review = Some \<lparr>mr_campus = di_campus info, mr_name = di_name info,
                               mr_url = dept_url,
                               reason = lit ''Failed to fetch homepage''\<rparr>\<rparr>"
    by (simp add: discover_boards_def)
next
  fix sp
  assume "dept_url \<noteq> lit ''NOT_FOUND'' \<and> startswith dept_url (lit ''http'')
      \<and> get_soup dept_url 7 = Some sp
      \<and> extract_boards_from_soup L sp dept_url (detect_cms_selectors L sp dept_url) = []
      \<and> (\<forall>sm. fst (find_sitemap L get_soup sp dept_url) = Some sm \<longrightarrow>
            extract_boards_from_soup L sm dept_url (detect_cms_selectors L sp dept_url) = [])"
  then show "fst (discover_boards L get_soup info dept_url)
            = \<lparr>r_boards = [], manual_review = None\<rparr>"
    by (auto simp: discover_boards_def Let_def split: option.splits prod.splits)
qed

lemma empty_home_boards: "extract_boards_from_soup L empty_home u d = []"
  by (simp add: extract_boards_from_soup_def empty_home_def)

lemma empty_home_sitemap: "find_sitemap L w empty_home u = (None, [])"
  by (simp add: find_sitemap_def empty_home_def)

theorem discover_boards_manual_review_witness:
  "discover_boards simple_lib no_web cs_info (lit ''NOT_FOUND'') =
     (\<lparr>r_boards = [],
       manual_review = Some \<lparr>mr_campus = di_campus cs_info, mr_name = di_name cs_info,
                             mr_url = lit ''NOT_FOUND'',
                             reason = lit ''Homepage URL is invalid''\<rparr>\<rparr>, []) \<and>
   (cs_url \<noteq> lit ''NOT_FOUND'' \<and> startswith cs_url (lit ''http'') \<and> no_web cs_url 7 = None) \<and>
   fst (discover_boards simple_lib no_web cs_info cs_url) =
     \<lparr>r_boards = [],
      manual_review = Some \<lparr>mr_campus = di_campus cs_info, mr_name = di_name cs_info,
                            mr_url = cs_url,
                            reason = lit ''Failed to fetch homepage''\<rparr>\<rparr> \<and>
   empty_web cs_url 7 = Some empty_home \<and>
   fst (discover_boards simple_lib empty_web cs_info cs_url)
     = \<lparr>r_boards = [], manual_review = None\<rparr>"
proof -
  from discover_boards_manual_review [of simple_lib no_web cs_info "lit ''NOT_FOUND''"]
  have 1: "discover_boards simple_lib no_web cs_info (lit ''NOT_FOUND'') =
     (\<lparr>r_boards = [],
       manual_review = Some \<lparr>mr_campus = di_campus cs_info, mr_name = di_name cs_info,
                             mr_url = lit ''NOT_FOUND'',
                             reason = lit ''Homepage URL is invalid''\<rparr>\<rparr>, [])"
    by blast
  have h2: "cs_url \<noteq> lit ''NOT_FOUND'' \<and> startswith cs_url (lit ''http'')
      \<and> no_web cs_url 7 = None"
    using cs_url_valid by (simp add: no_web_def)
  with discover_boards_manual_review [of simple_lib no_web cs_info cs_url]
  have 2: "fst (discover_boards simple_lib no_web cs_info cs_url) =
     \<lparr>r_boards = [],
      manual_review = Some \<lparr>mr_campus = di_campus cs_info, mr_name = di_name cs_info,
                            mr_url = cs_url,
                            reason = lit ''Failed to fetch homepage''\<rparr>\<rparr>"
    by blast
  have h3: "cs_url \<noteq> lit ''NOT_FOUND'' \<and> startswith cs_url (lit ''http'')
      \<and> empty_web cs_url 7 = Some empty_home
      \<and> extract_boards_from_soup simple_lib empty_home cs_url
           (detect_cms_selectors simple_lib empty_home cs_url) = []
      \<and> (\<forall>sm. fst (find_sitemap simple_lib empty_web empty_home cs_url) = Some sm \<longrightarrow>
            extract_boards_from_soup simple_lib sm cs_url
              (detect_cms_selectors simple_lib empty_home cs_url) = [])"
    using cs_url_valid by (simp add: empty_web_def empty_home_boards empty_home_sitemap)
  with discover_boards_manual_review [of simple_lib empty_web cs_info cs_url]
  have 3: "fst (discover_boards simple_lib empty_web cs_info cs_url)
     = \<lparr>r_boards = [], manual_review = None\<rparr>"
    by blast
  from 1 h2 2 3 show ?thesis by (simp add: empty_web_def)
qed










section \<open>detect_cms_selectors\<close>

text \<open>
  C4, as stated, fails. For the url \<open>https://www.dorm.yonsei.ac.kr/\<close> and a document
  without any marker the detector returns the table-based bundle, because \<open>.do\<close> occurs in
  the host; the path of the url is \<open>/\<close>. And for a document whose markup has the marker
  class in upper case and a url without \<open>.do\<close> it returns that bundle too, because the
  markup is lower-cased before it is searched.
\<close>

theorem detect_cms_selectors_counterexample:
  "detect_cms_selectors simple_lib empty_home (lit ''https://www.dorm.yonsei.ac.kr/'')
     = Some yonsei_cms \<and>
   url_path (lit ''https://www.dorm.yonsei.ac.kr/'') = lit ''/'' \<and>
   \<not> contains (lit ''.do'') (url_path (lit ''https://www.dorm.yonsei.ac.kr/'')) \<and>
   \<not> contains (lit ''c-board-title'') (markup empty_home) \<and>
   detect_cms_selectors simple_lib
       \<lparr>anchors = [], markup = lit ''C-BOARD-TITLE'', main_h1 = None\<rparr> cs_url
     = Some yonsei_cms \<and>
   \<not> contains (lit ''.do'') cs_url \<and>
   \<not> contains (lit ''c-board-title'') (lit ''C-BOARD-TITLE'')"
  by (simp add: detect_cms_selectors_def simple_lib_def ascii_lower_def empty_home_def
        url_path_def cs_url_def lit_def)

text \<open>
  C4, amended. The detector is a first-match-wins heuristic on the url string and on the
  lower-cased markup: it returns the table-based bundle exactly when the url, anywhere in
  it, contains \<open>.do\<close> or the lower-cased markup contains \<open>c-board-title\<close>; otherwise the
  list-based bundle exactly when the lower-cased markup contains \<open>xe-list-board\<close> or
  \<open>xe_board\<close>; otherwise \<open>None\<close>. It returns nothing else.
\<close>

theorem detect_cms_selectors_first_match:
  "(detect_cms_selectors L sp url = Some yonsei_cms \<longleftrightarrow>
      contains (lit ''.do'') url \<or> contains (lit ''c-board-title'') (str_lower L (markup sp))) \<and>
   (detect_cms_selectors L sp url = Some xe_board \<longleftrightarrow>
      \<not> (contains (lit ''.do'') url \<or> contains (lit ''c-board-title'') (str_lower L (markup sp)))
      \<and> (contains (lit ''xe-list-board'') (str_lower L (markup sp))
           \<or> contains (lit ''xe_board'') (str_lower L (markup sp)))) \<and>
   (detect_cms_selectors L sp url = None \<longleftrightarrow>
      \<not> (contains (lit ''.do'') url \<or> contains (lit ''c-board-title'') (str_lower L (markup sp)))
      \<and> \<not> (contains (lit ''xe-list-board'') (str_lower L (markup sp))
             \<or> contains (lit ''xe_board'') (str_lower L (markup sp))))"
  using bundles_differ by (auto simp: detect_cms_selectors_def Let_def)

theorem detect_cms_selectors_first_match_witness:
  "detect_cms_selectors simple_lib
     \<lparr>anchors = [], markup = lit ''<div class=xe_board>'', main_h1 = None\<rparr> cs_url
     = Some xe_board \<and>
   detect_cms_selectors simple_lib
     \<lparr>anchors = [], markup = lit ''<div class=xe_board>'', main_h1 = None\<rparr>
     (lit ''https://cs.yonsei.ac.kr/list.do'') = Some yonsei_cms \<and>
   detect_cms_selectors simple_lib empty_home cs_url = None"
proof -
  let ?sp = "\<lparr>anchors = [], markup = lit ''<div class=xe_board>'', main_h1 = None\<rparr>"
  have m: "str_lower simple_lib (markup ?sp) = lit ''<div class=xe_board>''"
    by (simp add: simple_lib_def ascii_lower_def lit_def)
  have e: "str_lower simple_lib (markup empty_home) = []"
    by (simp add: simple_lib_def ascii_lower_def empty_home_def)
  have 1: "detect_cms_selectors simple_lib ?sp cs_url = Some xe_board"
    using detect_cms_selectors_first_match [of simple_lib ?sp cs_url] unfolding m
    by (simp add: cs_url_def lit_def)
  have 2: "detect_cms_selectors simple_lib ?sp (lit ''https://cs.yonsei.ac.kr/list.do'')
      = Some yonsei_cms"
    using detect_cms_selectors_first_match [of simple_lib ?sp "lit ''https://cs.yonsei.ac.kr/list.do''"]
    by (simp add: lit_def)
  have 3: "detect_cms_selectors simple_lib empty_home cs_url = None"
    using detect_cms_selectors_first_match [of simple_lib empty_home cs_url] unfolding e
    by (simp add: cs_url_def lit_def)
  from 1 2 3 show ?thesis by simp
qed

section \<open>Department ids\<close>

lemma subdomain_match_Some:
  assumes s: "s = lit ''http'' \<or> s = lit ''https''" and ne: "sub \<noteq> []"
    and nd: "46 \<notin> set sub"
  shows "subdomain_match (s @ lit ''://'' @ sub @ lit ''.yonsei.ac.kr'' @ rest) = Some sub"
proof -
  let ?tail = "sub @ lit ''.yonsei.ac.kr'' @ rest"
  have P: "\<forall>x \<in> set sub. x \<noteq> 46" using nd by auto
  have dot: "lit ''.yonsei.ac.kr'' @ rest = 46 # lit ''yonsei.ac.kr'' @ rest"
    by (simp add: lit_def)
  have tw: "takeWhile (\<lambda>c. c \<noteq> 46) ?tail = sub"
    using P by (simp add: dot takeWhile_append2 del: append_assoc)
  have dw: "dropWhile (\<lambda>c. c \<noteq> 46) ?tail = lit ''.yonsei.ac.kr'' @ rest"
    using P by (simp add: dot dropWhile_append2 del: append_assoc)
  from s show ?thesis
  proof
    assume "s = lit ''http''"
    then have u: "s @ lit ''://'' @ ?tail = lit ''http://'' @ ?tail"
      by (simp add: lit_def)
    have np: "\<not> prefix (lit ''https://'') (lit ''http://'' @ ?tail)"
      by (simp add: lit_def)
    have p: "prefix (lit ''http://'') (lit ''http://'' @ ?tail)" by simp
    have d: "drop 7 (lit ''http://'' @ ?tail) = ?tail" by (simp add: lit_def)
    show ?thesis unfolding u subdomain_match_def
      using np p ne by (simp only: d tw dw Let_def if_False if_True option.case) simp
  next
    assume "s = lit ''https''"
    then have u: "s @ lit ''://'' @ ?tail = lit ''https://'' @ ?tail"
      by (simp add: lit_def)
    have p: "prefix (lit ''https://'') (lit ''https://'' @ ?tail)" by simp
    have d: "drop 8 (lit ''https://'' @ ?tail) = ?tail" by (simp add: lit_def)
    show ?thesis unfolding u subdomain_match_def
      using p ne by (simp only: d tw dw Let_def if_False if_True option.case) simp
  qed
qed

lemma subdomain_match_SomeD:
  assumes "subdomain_match url = Some g"
  shows "\<exists>s rest. (s = lit ''http'' \<or> s = lit ''https'') \<and> g \<noteq> [] \<and> 46 \<notin> set g \<and>
           url = s @ lit ''://'' @ g @ lit ''.yonsei.ac.kr'' @ rest"
proof -
  define P where "P = (\<lambda>c::nat. c \<noteq> 46)"
  have tail: "g \<noteq> [] \<and> 46 \<notin> set g \<and> (\<exists>rest. r = g @ lit ''.yonsei.ac.kr'' @ rest)"
    if g: "g = takeWhile P r" and ne: "takeWhile P r \<noteq> []"
      and pre: "prefix (lit ''.yonsei.ac.kr'') (dropWhile P r)" for r
  proof -
    from pre obtain rest where rest: "dropWhile P r = lit ''.yonsei.ac.kr'' @ rest"
      by (auto simp: prefix_def)
    have "takeWhile P r @ dropWhile P r = r" by simp
    then have "g @ lit ''.yonsei.ac.kr'' @ rest = r" unfolding rest g [symmetric] .
    then have "r = g @ lit ''.yonsei.ac.kr'' @ rest" by (rule sym)
    moreover have "46 \<notin> set g" unfolding g P_def using set_takeWhileD by fastforce
    moreover have "g \<noteq> []" using g ne by simp
    ultimately show ?thesis by blast
  qed
  show ?thesis
  proof (cases "prefix (lit ''https://'') url")
    case True
    then obtain zs where u: "url = lit ''https://'' @ zs"
      by (auto simp: prefix_def)
    have d: "drop 8 url = zs" unfolding u by (simp add: lit_def)
    from assms True have "g = takeWhile P (drop 8 url)" "takeWhile P (drop 8 url) \<noteq> []"
      "prefix (lit ''.yonsei.ac.kr'') (dropWhile P (drop 8 url))"
      by (auto simp: subdomain_match_def Let_def P_def split: if_splits)
    from tail [OF this] obtain rest where r: "g \<noteq> []" "46 \<notin> set g"
      "zs = g @ lit ''.yonsei.ac.kr'' @ rest" unfolding d by blast
    have "url = lit ''https'' @ lit ''://'' @ g @ lit ''.yonsei.ac.kr'' @ rest"
      unfolding u r(3) by (simp add: lit_def)
    with r show ?thesis by blast
  next
    case False
    show ?thesis
    proof (cases "prefix (lit ''http://'') url")
      case True
      then obtain zs where u: "url = lit ''http://'' @ zs"
        by (auto simp: prefix_def)
      have d: "drop 7 url = zs" unfolding u by (simp add: lit_def)
      from assms True False have "g = takeWhile P (drop 7 url)"
        "takeWhile P (drop 7 url) \<noteq> []"
        "prefix (lit ''.yonsei.ac.kr'') (dropWhile P (drop 7 url))"
        by (auto simp: subdomain_match_def Let_def P_def split: if_splits)
      from tail [OF this] obtain rest where r: "g \<noteq> []" "46 \<notin> set g"
        "zs = g @ lit ''.yonsei.ac.kr'' @ rest" unfolding d by blast
      have "url = lit ''http'' @ lit ''://'' @ g @ lit ''.yonsei.ac.kr'' @ rest"
        unfolding u r(3) by (simp add: lit_def)
      with r show ?thesis by blast
    next
      case no: False
      with False assms show ?thesis by (simp add: subdomain_match_def)
    qed
  qed
qed

lemma subdomain_match_None:
  assumes "subdomain_match url = None"
  shows "\<not> (\<exists>s sub rest.
      (s = lit ''http'' \<or> s = lit ''https'') \<and> sub \<noteq> [] \<and> 46 \<notin> set sub \<and>
      url = s @ lit ''://'' @ sub @ lit ''.yonsei.ac.kr'' @ rest)"
proof
  assume "\<exists>s sub rest.
      (s = lit ''http'' \<or> s = lit ''https'') \<and> sub \<noteq> [] \<and> 46 \<notin> set sub \<and>
      url = s @ lit ''://'' @ sub @ lit ''.yonsei.ac.kr'' @ rest"
  then obtain s sub rest where a: "s = lit ''http'' \<or> s = lit ''https''" "sub \<noteq> []"
    "46 \<notin> set sub" and u: "url = s @ lit ''://'' @ sub @ lit ''.yonsei.ac.kr'' @ rest"
    by blast
  from subdomain_match_Some [OF a, of rest] have "subdomain_match url = Some sub"
    unfolding u .
  with assms show False by simp
qed

lemma http_url_not_sentinel:
  assumes "s = lit ''http'' \<or> s = lit ''https''"
  shows "s @ t \<noteq> [] \<and> s @ t \<noteq> lit ''NOT_FOUND''"
  using assms by (auto simp: lit_def)

text \<open>
  C5, as stated, fails in both directions. The url \<open>https://econ.yonsei.ac.kr.evil.com/\<close>
  is not of the form \<open>scheme://{subdomain}.yonsei.ac.kr/...\<close> (its host ends with
  \<open>.evil.com\<close>), yet its id is \<open>yonsei_econ\<close> and not the id derived from the name: the
  pattern of the code is not anchored at the end of the host. The url
  \<open>ftp://econ.yonsei.ac.kr/\<close> is of that form, yet its id is derived from the name: the
  pattern of the code accepts the schemes \<open>http\<close> and \<open>https\<close> only.
\<close>

theorem department_id_pattern_counterexample:
  "claimed_pattern (lit ''https://econ.yonsei.ac.kr.evil.com/'') = None \<and>
   generate_department_id simple_lib (lit ''Evil'') (lit ''https://econ.yonsei.ac.kr.evil.com/'')
     = lit ''yonsei_econ'' \<and>
   lit ''yonsei_econ'' \<noteq> lit ''yonsei_'' @ replace_space (str_lower simple_lib (lit ''Evil'')) \<and>
   claimed_pattern (lit ''ftp://econ.yonsei.ac.kr/'') = Some (lit ''econ'') \<and>
   generate_department_id simple_lib (lit ''Economics'') (lit ''ftp://econ.yonsei.ac.kr/'')
     = lit ''yonsei_economics'' \<and>
   lit ''yonsei_economics'' \<noteq> lit ''yonsei_'' @ str_lower simple_lib (lit ''econ'')"
proof -
  have 1: "claimed_pattern (lit ''https://econ.yonsei.ac.kr.evil.com/'') = None"
    by (simp add: claimed_pattern_def suffix_to_prefix lit_def)
  have 2: "generate_department_id simple_lib (lit ''Evil'')
      (lit ''https://econ.yonsei.ac.kr.evil.com/'') = lit ''yonsei_econ''"
    by (simp add: generate_department_id_def subdomain_match_def simple_lib_def
          ascii_lower_def lit_def)
  have 3: "lit ''yonsei_econ''
      \<noteq> lit ''yonsei_'' @ replace_space (str_lower simple_lib (lit ''Evil''))"
    by (simp add: simple_lib_def ascii_lower_def replace_space_def lit_def)
  have 4: "claimed_pattern (lit ''ftp://econ.yonsei.ac.kr/'') = Some (lit ''econ'')"
    by (simp add: claimed_pattern_def suffix_to_prefix lit_def)
  have 5: "generate_department_id simple_lib (lit ''Economics'') (lit ''ftp://econ.yonsei.ac.kr/'')
      = lit ''yonsei_economics''"
    by (simp add: generate_department_id_def subdomain_match_def simple_lib_def
          ascii_lower_def replace_space_def lit_def)
  have 6: "lit ''yonsei_economics'' \<noteq> lit ''yonsei_'' @ str_lower simple_lib (lit ''econ'')"
    by (simp add: simple_lib_def ascii_lower_def lit_def)
  show ?thesis by (intro conjI) (rule 1 2 3 4 5 6)+
qed

text \<open>
  C5, amended. The id of a department is a function of its name and url. For every url
  that starts with \<open>http://\<close> or \<open>https://\<close>, then a non-empty subdomain without a dot,
  then \<open>.yonsei.ac.kr\<close>, whatever follows, the id is \<open>yonsei_\<close> followed by the lower-cased
  subdomain. For every other url (another scheme, a subdomain with a dot, the empty url,
  \<open>NOT_FOUND\<close>) the id is \<open>yonsei_\<close> followed by the lower-cased name with each space
  replaced by an underscore. Equal pairs of name and url give equal ids.
\<close>

theorem department_id_deterministic:
  "(\<forall>s sub rest.
      (s = lit ''http'' \<or> s = lit ''https'') \<and> sub \<noteq> [] \<and> 46 \<notin> set sub \<and>
      url = s @ lit ''://'' @ sub @ lit ''.yonsei.ac.kr'' @ rest \<longrightarrow>
      generate_department_id L name url = lit ''yonsei_'' @ str_lower L sub) \<and>
   (\<not> (\<exists>s sub rest.
      (s = lit ''http'' \<or> s = lit ''https'') \<and> sub \<noteq> [] \<and> 46 \<notin> set sub \<and>
      url = s @ lit ''://'' @ sub @ lit ''.yonsei.ac.kr'' @ rest) \<longrightarrow>
      generate_department_id L name url = lit ''yonsei_'' @ replace_space (str_lower L name)) \<and>
   (\<forall>name' url'. name' = name \<and> url' = url \<longrightarrow>
      generate_department_id L name' url' = generate_department_id L name url)"
proof (intro conjI allI impI)
  fix s sub rest
  assume a: "(s = lit ''http'' \<or> s = lit ''https'') \<and> sub \<noteq> [] \<and> 46 \<notin> set sub \<and>
      url = s @ lit ''://'' @ sub @ lit ''.yonsei.ac.kr'' @ rest"
  then have s: "s = lit ''http'' \<or> s = lit ''https''" and ne: "sub \<noteq> []"
    and nd: "46 \<notin> set sub"
    and u: "url = s @ lit ''://'' @ sub @ lit ''.yonsei.ac.kr'' @ rest"
    by blast+
  have m: "subdomain_match url = Some sub"
    unfolding u by (rule subdomain_match_Some [OF s ne nd])
  have "url \<noteq> [] \<and> url \<noteq> lit ''NOT_FOUND''"
    unfolding u by (rule http_url_not_sentinel [OF s])
  with m show "generate_department_id L name url = lit ''yonsei_'' @ str_lower L sub"
    by (simp add: generate_department_id_def)
next
  assume n: "\<not> (\<exists>s sub rest.
      (s = lit ''http'' \<or> s = lit ''https'') \<and> sub \<noteq> [] \<and> 46 \<notin> set sub \<and>
      url = s @ lit ''://'' @ sub @ lit ''.yonsei.ac.kr'' @ rest)"
  have "subdomain_match url = None"
  proof (cases "subdomain_match url")
    case None
    then show ?thesis .
  next
    case (Some g)
    from subdomain_match_SomeD [OF Some] obtain s rest where
      "(s = lit ''http'' \<or> s = lit ''https'') \<and> g \<noteq> [] \<and> 46 \<notin> set g \<and>
           url = s @ lit ''://'' @ g @ lit ''.yonsei.ac.kr'' @ rest"
      by blast
    then have "\<exists>s sub rest.
      (s = lit ''http'' \<or> s = lit ''https'') \<and> sub \<noteq> [] \<and> 46 \<notin> set sub \<and>
      url = s @ lit ''://'' @ sub @ lit ''.yonsei.ac.kr'' @ rest"
      by (intro exI)
    with n show ?thesis by (rule notE)
  qed
  then show "generate_department_id L name url
      = lit ''yonsei_'' @ replace_space (str_lower L name)"
    by (simp add: generate_department_id_def)
next
  fix name' url'
  assume "name' = name \<and> url' = url"
  then show "generate_department_id L name' url' = generate_department_id L name url"
    by simp
qed

theorem department_id_deterministic_witness:
  "generate_department_id simple_lib (lit ''Economics'') (lit ''https://econ.yonsei.ac.kr/'')
     = lit ''yonsei_econ'' \<and>
   generate_department_id simple_lib (lit ''Global Studies'') (lit ''NOT_FOUND'')
     = lit ''yonsei_global_studies''"
proof -
  have d: "lit ''https://econ.yonsei.ac.kr/''
      = lit ''https'' @ lit ''://'' @ lit ''econ'' @ lit ''.yonsei.ac.kr'' @ lit ''/''"
    by (simp add: lit_def)
  have c: "(lit ''https'' = lit ''http'' \<or> lit ''https'' = lit ''https'') \<and> lit ''econ'' \<noteq> []
      \<and> 46 \<notin> set (lit ''econ'')"
    by (simp add: lit_def)
  from department_id_deterministic
         [of "lit ''https://econ.yonsei.ac.kr/''" simple_lib "lit ''Economics''"] c d
  have "generate_department_id simple_lib (lit ''Economics'') (lit ''https://econ.yonsei.ac.kr/'')
      = lit ''yonsei_'' @ str_lower simple_lib (lit ''econ'')"
    by blast
  then have 1: "generate_department_id simple_lib (lit ''Economics'')
      (lit ''https://econ.yonsei.ac.kr/'') = lit ''yonsei_econ''"
    by (simp add: simple_lib_def ascii_lower_def lit_def)
  have "subdomain_match (lit ''NOT_FOUND'') = None"
    by (simp add: subdomain_match_def lit_def)
  then have n: "\<not> (\<exists>s sub rest.
      (s = lit ''http'' \<or> s = lit ''https'') \<and> sub \<noteq> [] \<and> 46 \<notin> set sub \<and>
      lit ''NOT_FOUND'' = s @ lit ''://'' @ sub @ lit ''.yonsei.ac.kr'' @ rest)"
    by (rule subdomain_match_None)
  from department_id_deterministic [of "lit ''NOT_FOUND''" simple_lib "lit ''Global Studies''"] n
  have "generate_department_id simple_lib (lit ''Global Studies'') (lit ''NOT_FOUND'')
      = lit ''yonsei_'' @ replace_space (str_lower simple_lib (lit ''Global Studies''))"
    by blast
  then have 2: "generate_department_id simple_lib (lit ''Global Studies'') (lit ''NOT_FOUND'')
      = lit ''yonsei_global_studies''"
    by (simp add: simple_lib_def ascii_lower_def replace_space_def lit_def)
  from 1 2 show ?thesis by simp
qed

section \<open>crawl_campus\<close>

lemma header_loop_Cons:
  "header_loop L (h # hs) st = header_loop L hs (header_step L h st)"
  by (simp add: header_step_def Let_def split: option.splits)

lemma header_step_inv:
  assumes "crawl_inv st"
  shows "crawl_inv (header_step L h st)"
proof -
  define t where
    "t = strip (sub_to_eol homepage_kw False (sub_to_eol faculty_kw False (h_text h)))"
  define cs where "cs = cs_colleges st"
  from assms have cur: "current_college st = (if cs = [] then None else Some (length cs - 1))"
    and adj: "distinct_adj (map c_name cs)"
    by (simp_all add: crawl_inv_def cs_def)
  have app: "crawl_inv \<lparr>cs_colleges = cs @ [\<lparr>c_name = t, departments = []\<rparr>],
                         current_college = Some (length cs)\<rparr>"
    if "\<not> (case current_college st of None \<Rightarrow> False | Some i \<Rightarrow> c_name (cs ! i) = t)"
  proof -
    have "cs = [] \<or> last (map c_name cs) \<noteq> t"
      using that cur by (auto simp: last_map last_conv_nth)
    then show ?thesis
      using adj by (auto simp: crawl_inv_def distinct_adj_append_iff)
  qed
  have upd: "crawl_inv (st\<lparr>cs_colleges := cs[i := (cs ! i)\<lparr>departments := ds\<rparr>]\<rparr>)"
    if "current_college st = Some i" for i ds
  proof -
    have "(map c_name cs)[i := c_name (cs ! i)] = map c_name cs"
    proof (cases "i < length cs")
      case True
      then have "c_name (cs ! i) = map c_name cs ! i" by simp
      then show ?thesis by (simp only: list_update_id)
    next
      case False
      then have "length (map c_name cs) \<le> i" by simp
      then show ?thesis by (rule list_update_beyond)
    qed
    then have "map c_name (cs[i := (cs ! i)\<lparr>departments := ds\<rparr>]) = map c_name cs"
      by (simp add: map_update)
    then show ?thesis using cur adj that by (auto simp: crawl_inv_def split: if_splits)
  qed
  show ?thesis
    unfolding header_step_def t_def [symmetric] cs_def [symmetric] Let_def
    using assms app upd by (auto split: option.splits)
qed

lemma header_loop_inv: "crawl_inv st \<Longrightarrow> crawl_inv (header_loop L hs st)"
proof (induction hs arbitrary: st)
  case Nil
  then show ?case by simp
next
  case (Cons h hs)
  then show ?case unfolding header_loop_Cons by (simp add: header_step_inv)
qed

lemma crawl_inv_init: "crawl_inv \<lparr>cs_colleges = [], current_college = None\<rparr>"
  by (simp add: crawl_inv_def)

lemmas crawl_eval = strip_def is_space_def homepage_kw_def faculty_kw_def
  college_pattern_search_def ends_college_def hangul_def

text \<open>
  C1, as stated, fails. On a page whose headers are the college of engineering, the
  college of liberal arts and the college of engineering again, \<open>crawl_campus\<close> returns a
  campus with three colleges, the first and the third of the same name: only the current
  college is compared with a college header.
\<close>

theorem crawl_campus_duplicate_counterexample:
  "crawl_campus simple_lib campus_web (lit ''https://www.yonsei.ac.kr/sc/186/subview.do'')
       (lit ''Sinchon'')
     = Some \<lparr>campus = lit ''Sinchon'',
             colleges = [\<lparr>c_name = [44277, 44284, 45824, 54617], departments = []\<rparr>,
                         \<lparr>c_name = [47928, 44284, 45824, 54617], departments = []\<rparr>,
                         \<lparr>c_name = [44277, 44284, 45824, 54617], departments = []\<rparr>]\<rparr> \<and>
   \<not> distinct (map c_name [\<lparr>c_name = [44277, 44284, 45824, 54617], departments = []\<rparr>,
                            \<lparr>c_name = [47928, 44284, 45824, 54617], departments = []\<rparr>,
                            \<lparr>c_name = [44277, 44284, 45824, 54617], departments = []\<rparr>])"
  by (simp add: crawl_campus_def campus_web_def three_colleges_def crawl_eval Let_def)

text \<open>
  C1, amended. In every campus that \<open>crawl_campus\<close> produces, no two consecutive
  colleges have the same name: a college header whose cleaned text is the name of the
  current college, the one created last, creates no college and leaves the state of the
  crawl as it is.
\<close>

theorem crawl_campus_no_adjacent_duplicates:
  "(\<forall>c. crawl_campus L get_soup url campus_name = Some c \<longrightarrow>
      distinct_adj (map c_name (colleges c))) \<and>
   (\<forall>h hs st i.
      current_college st = Some i \<and>
      strip (sub_to_eol homepage_kw False (sub_to_eol faculty_kw False (h_text h)))
        = c_name (cs_colleges st ! i) \<and>
      college_pattern_search (c_name (cs_colleges st ! i)) \<longrightarrow>
      header_loop L (h # hs) st = header_loop L hs st)"
proof (intro conjI allI impI)
  fix c
  assume "crawl_campus L get_soup url campus_name = Some c"
  then obtain hs where
    "colleges c = cs_colleges (header_loop L hs \<lparr>cs_colleges = [], current_college = None\<rparr>)"
    by (auto simp: crawl_campus_def split: option.splits)
  moreover have "crawl_inv (header_loop L hs \<lparr>cs_colleges = [], current_college = None\<rparr>)"
    by (rule header_loop_inv [OF crawl_inv_init])
  ultimately show "distinct_adj (map c_name (colleges c))"
    by (simp add: crawl_inv_def)
next
  fix h :: header and hs and st :: crawl_state and i
  assume "current_college st = Some i \<and>
      strip (sub_to_eol homepage_kw False (sub_to_eol faculty_kw False (h_text h)))
        = c_name (cs_colleges st ! i) \<and>
      college_pattern_search (c_name (cs_colleges st ! i))"
  then show "header_loop L (h # hs) st = header_loop L hs st"
    by (simp add: Let_def)
qed

lemma department_header_url:
  "extract_department_url
     \<lparr>h_text = [52980, 54504, 53552, 44284, 54617, 44284, 32, 44368, 49688, 51652],
      h_siblings =
        [[\<lparr>a_string = Some [54856, 54168, 51060, 51648],
           a_text = [54856, 54168, 51060, 51648],
           a_href = Some (lit ''https://cs.yonsei.ac.kr/'')\<rparr>]]\<rparr>
     = lit ''https://cs.yonsei.ac.kr/''"
  by (simp add: extract_department_url_def homepage_kw_def startswith_def lit_def)

lemma department_header_id:
  "generate_department_id simple_lib [52980, 54504, 53552, 44284, 54617, 44284]
     (lit ''https://cs.yonsei.ac.kr/'') = lit ''yonsei_cs''"
  by (simp add: generate_department_id_def subdomain_match_def simple_lib_def ascii_lower_def
        lit_def)

lemma repeated_colleges_crawl:
  "crawl_campus simple_lib repeated_web (lit ''https://www.yonsei.ac.kr/sc/186/subview.do'')
       (lit ''Sinchon'')
     = Some \<lparr>campus = lit ''Sinchon'',
             colleges =
               [\<lparr>c_name = [44277, 44284, 45824, 54617],
                 departments =
                   [\<lparr>d_id = lit ''yonsei_cs'',
                     d_name = [52980, 54504, 53552, 44284, 54617, 44284],
                     d_url = lit ''https://cs.yonsei.ac.kr/'', d_boards = []\<rparr>]\<rparr>,
                \<lparr>c_name = [47928, 44284, 45824, 54617], departments = []\<rparr>]\<rparr>"
  by (simp add: crawl_campus_def repeated_web_def repeated_colleges_def crawl_eval Let_def
        department_header_url department_header_id)

theorem crawl_campus_no_adjacent_duplicates_witness:
  "crawl_campus simple_lib repeated_web (lit ''https://www.yonsei.ac.kr/sc/186/subview.do'')
       (lit ''Sinchon'')
     = Some \<lparr>campus = lit ''Sinchon'',
             colleges =
               [\<lparr>c_name = [44277, 44284, 45824, 54617],
                 departments =
                   [\<lparr>d_id = lit ''yonsei_cs'',
                     d_name = [52980, 54504, 53552, 44284, 54617, 44284],
                     d_url = lit ''https://cs.yonsei.ac.kr/'', d_boards = []\<rparr>]\<rparr>,
                \<lparr>c_name = [47928, 44284, 45824, 54617], departments = []\<rparr>]\<rparr> \<and>
   distinct_adj [[44277, 44284, 45824, 54617], [47928, 44284, 45824, 54617 :: nat]] \<and>
   header_loop simple_lib [\<lparr>h_text = [44277, 44284, 45824, 54617], h_siblings = []\<rparr>]
       \<lparr>cs_colleges = [\<lparr>c_name = [44277, 44284, 45824, 54617], departments = []\<rparr>],
        current_college = Some 0\<rparr>
     = \<lparr>cs_colleges = [\<lparr>c_name = [44277, 44284, 45824, 54617], departments = []\<rparr>],
        current_college = Some 0\<rparr>"
proof -
  let ?st = "\<lparr>cs_colleges = [\<lparr>c_name = [44277, 44284, 45824, 54617], departments = []\<rparr>],
              current_college = Some 0\<rparr>"
  let ?h = "\<lparr>h_text = [44277, 44284, 45824, 54617], h_siblings = []\<rparr>"
  note inst = crawl_campus_no_adjacent_duplicates
                [of simple_lib repeated_web "lit ''https://www.yonsei.ac.kr/sc/186/subview.do''"
                    "lit ''Sinchon''"]
  from inst have "\<forall>c. crawl_campus simple_lib repeated_web
        (lit ''https://www.yonsei.ac.kr/sc/186/subview.do'') (lit ''Sinchon'') = Some c \<longrightarrow>
      distinct_adj (map c_name (colleges c))"
    by (rule conjunct1)
  from this [rule_format, OF repeated_colleges_crawl]
  have 1: "distinct_adj [[44277, 44284, 45824, 54617], [47928, 44284, 45824, 54617 :: nat]]"
    by simp
  have h: "current_college ?st = Some 0 \<and>
      strip (sub_to_eol homepage_kw False (sub_to_eol faculty_kw False (h_text ?h)))
        = c_name (cs_colleges ?st ! 0) \<and>
      college_pattern_search (c_name (cs_colleges ?st ! 0))"
    by (simp add: crawl_eval)
  from inst have "\<forall>h hs st i.
      current_college st = Some i \<and>
      strip (sub_to_eol homepage_kw False (sub_to_eol faculty_kw False (h_text h)))
        = c_name (cs_colleges st ! i) \<and>
      college_pattern_search (c_name (cs_colleges st ! i)) \<longrightarrow>
      header_loop simple_lib (h # hs) st = header_loop simple_lib hs st"
    by (rule conjunct2)
  from this [rule_format, OF h]
  have "header_loop simple_lib (?h # []) ?st = header_loop simple_lib [] ?st" .
  then have 2: "header_loop simple_lib [?h] ?st = ?st"
    by (simp only: header_loop.simps(1))
  show ?thesis by (intro conjI) (rule repeated_colleges_crawl 1 2)+
qed

section \<open>Serialisation\<close>

lemma those_map_inverse:
  assumes "\<And>x. f (g x) = Some x"
  shows "those (map f (map g xs)) = Some xs"
  using assms by (induction xs) simp_all

lemma those_map_comp_inverse:
  assumes "\<And>x. f (g x) = Some x"
  shows "those (map (f \<circ> g) xs) = Some xs"
  using assms by (induction xs) simp_all

lemma Board_round_trip: "Board_from_dict (Board_to_dict b) = Some b"
  by (simp add: Board_from_dict_def Board_to_dict_def get_str_def lit_def)

lemma Department_round_trip: "Department_from_dict (Department_to_dict d) = Some d"
  by (simp add: Department_from_dict_def Department_to_dict_def get_str_def get_list_def lit_def)

lemma College_round_trip: "College_from_dict (College_to_dict c) = Some c"
  by (simp add: College_from_dict_def College_to_dict_def get_str_def get_list_def lit_def
        those_map_comp_inverse [of Department_from_dict Department_to_dict,
          OF Department_round_trip])

lemma Campus_round_trip: "Campus_from_dict (Campus_to_dict c) = Some c"
  by (simp add: Campus_from_dict_def Campus_to_dict_def get_str_def get_list_def lit_def
        those_map_comp_inverse [of College_from_dict College_to_dict, OF College_round_trip])

lemma attach_boards_round_trip:
  "Department_from_dict (attach_boards (Department_to_dict d) bs)
     = Some (d\<lparr>d_boards := map Board_to_dict bs\<rparr>)"
  by (simp add: Department_from_dict_def Department_to_dict_def attach_boards_def dict_set_def
        get_str_def get_list_def lit_def)

text \<open>
  C9. Reading back what \<open>to_dict\<close> writes gives the entity again: for every campus
  (with its colleges and departments) and for every board. The same holds for a
  department to whose dictionary \<open>main\<close> has attached the serialised boards: the
  department is read back with those boards, and each of them is read back as the board
  it came from.
\<close>

theorem to_dict_round_trip:
  "Campus_from_dict (Campus_to_dict c) = Some c \<and>
   Board_from_dict (Board_to_dict b) = Some b \<and>
   Department_from_dict (attach_boards (Department_to_dict d) bs)
     = Some (d\<lparr>d_boards := map Board_to_dict bs\<rparr>) \<and>
   those (map Board_from_dict (map Board_to_dict bs)) = Some bs"
  by (intro conjI Campus_round_trip Board_round_trip attach_boards_round_trip
        those_map_inverse [of Board_from_dict Board_to_dict, OF Board_round_trip])

end
